theory Spec2Isabelle
  imports Main "HOL-Library.Word"
begin

section \<open>Values exchanged with the network\<close>

text \<open>
  JSON, both as a document (the syntax tree of a JSON text) and as the value
  \<open>response.json()\<close> delivers. Numbers are integers. An object is the list of its members
  in order; a document may repeat a name. Among values, a number of magnitude \<open>2 ^ 1024\<close>
  stands for an infinity, which is what a literal beyond the range of a double parses to.
\<close>

datatype json =
    JNull
  | JBool bool
  | JNum int
  | JStr string
  | JArr "json list"
  | JObj "(string \<times> json) list"

text \<open>JavaScript truthiness of a parsed JSON value (\<open>if (v)\<close>, \<open>v || d\<close>, \<open>a && v\<close>).\<close>

fun truthy :: "json \<Rightarrow> bool" where
  "truthy JNull = False"
| "truthy (JBool b) = b"
| "truthy (JNum n) = (n \<noteq> 0)"
| "truthy (JStr s) = (s \<noteq> [])"
| "truthy (JArr xs) = True"
| "truthy (JObj kvs) = True"

datatype exn = TypeError | InvalidStateError | RangeError | RenderError

text \<open>
  The property read \<open>data.k\<close> for the names the handlers read (\<open>normalized_text\<close>,
  \<open>error\<close>, \<open>detail\<close>). On \<open>null\<close> it throws a TypeError; on an object it is the
  member of that name (the last one when the document repeats a name, as \<open>JSON.parse\<close>
  keeps it) or \<open>undefined\<close>, written \<open>None\<close>; on any other value it is \<open>undefined\<close>.
\<close>

fun get_prop :: "json \<Rightarrow> string \<Rightarrow> exn + json option" where
  "get_prop JNull k = Inl TypeError"
| "get_prop (JObj kvs) k = Inr (map_of (rev kvs) k)"
| "get_prop v k = Inr None"

text \<open>\<open>v || d\<close> where \<open>v\<close> is the result of a property read.\<close>

fun or_else :: "json option \<Rightarrow> json \<Rightarrow> json" where
  "or_else None d = d"
| "or_else (Some v) d = (if truthy v then v else d)"

type_synonym byte = "8 word"

text \<open>A \<open>Blob\<close>: its bytes and its MIME type label.\<close>

record blob =
  blob_bytes :: "byte list"
  blob_type :: string

definition blob_size :: "blob \<Rightarrow> nat" where
  "blob_size b = length (blob_bytes b)"

text \<open>
  What \<open>await fetch(...)\<close> followed by \<open>await response.json()\<close> can deliver:
  the fetch rejects (\<open>Rejected\<close>, with the text \<open>String(error)\<close> would give), or it
  resolves with a status and a body that either fails to parse as JSON (\<open>Inl\<close>, again with
  the error text) or parses (\<open>Inr\<close>). The recorder component is given the body as
  \<open>response.json()\<close> delivers it, already parsed. The route handlers are given the body as
  the backend wrote it, and parsing it (\<open>JSON_parse\<close>) is a step of theirs.
\<close>

datatype reply = Rejected string | Replied nat "string + json"

text \<open>\<open>response.ok\<close>: the status is in the range 200 to 299.\<close>

definition ok :: "nat \<Rightarrow> bool" where
  "ok st = (200 \<le> st \<and> st \<le> 299)"

subsection \<open>Parsing and serialising\<close>

text \<open>The number of binary digits of a natural number.\<close>

fun bitlen :: "nat \<Rightarrow> nat" where
  "bitlen n = (if n = 0 then 0 else Suc (bitlen (n div 2)))"

declare bitlen.simps [simp del]

text \<open>
  The double an integer literal parses to: the integer itself up to 53 binary digits,
  otherwise the nearest multiple of the unit in the last place, ties to the even one, and
  an infinity (\<open>2 ^ 1024\<close> with the sign) beyond the largest double.
\<close>

definition to_double :: "int \<Rightarrow> int" where
  "to_double n =
     (let m = nat \<bar>n\<bar>; k = bitlen m
      in if k \<le> 53 then n
         else
           (let ulp = 2 ^ (k - 53);
                q = m div ulp;
                r = m mod ulp;
                q' = (if 2 * r > ulp \<or> (2 * r = ulp \<and> odd q) then q + 1 else q)
            in sgn n * int (min (q' * ulp) (2 ^ 1024))))"

text \<open>
  A member name that is an array index: the decimal numeral, without a leading zero, of a
  number below \<open>2 ^ 32 - 1\<close>. An object lists such members first, in ascending order.
\<close>

definition array_index :: "string \<Rightarrow> nat option" where
  "array_index k =
     (if k \<noteq> [] \<and> list_all (\<lambda>c. (48::nat) \<le> of_char c \<and> of_char c \<le> (57::nat)) k \<and>
         (length k = 1 \<or> hd k \<noteq> CHR ''0'')
      then (let n = foldl (\<lambda>acc c. 10 * acc + (of_char c - 48)) (0::nat) k
            in if n < 4294967295 then Some n else None)
      else None)"

text \<open>
  Defining a member on an object under construction: a name the object has keeps its place
  and takes the new value, a new name goes last.
\<close>

fun set_member :: "string \<Rightarrow> json \<Rightarrow> (string \<times> json) list \<Rightarrow> (string \<times> json) list" where
  "set_member k v [] = [(k, v)]"
| "set_member k v ((k', v') # ms) =
     (if k = k' then (k, v) # ms else (k', v') # set_member k v ms)"

definition own_members :: "(string \<times> json) list \<Rightarrow> (string \<times> json) list" where
  "own_members kvs = foldl (\<lambda>ms (k, v). set_member k v ms) [] kvs"

text \<open>The order in which an object's members are enumerated.\<close>

definition enumerable :: "(string \<times> json) list \<Rightarrow> (string \<times> json) list" where
  "enumerable ms =
     sort_key (\<lambda>(k, v). the (array_index k)) (filter (\<lambda>(k, v). array_index k \<noteq> None) ms) @
     filter (\<lambda>(k, v). array_index k = None) ms"

text \<open>\<open>JSON.parse\<close>, from the document to the value, as \<open>response.json()\<close> applies it.\<close>

fun JSON_parse :: "json \<Rightarrow> json" where
  "JSON_parse (JNum n) = JNum (to_double n)"
| "JSON_parse (JArr xs) = JArr (map JSON_parse xs)"
| "JSON_parse (JObj kvs) = JObj (own_members (map (\<lambda>(k, v). (k, JSON_parse v)) kvs))"
| "JSON_parse v = v"

text \<open>
  \<open>JSON.stringify\<close>, from the value to the document, as \<open>NextResponse.json\<close> applies it:
  an infinity is written \<open>null\<close>.
\<close>

fun JSON_stringify :: "json \<Rightarrow> json" where
  "JSON_stringify (JNum n) = (if \<bar>n\<bar> \<ge> 2 ^ 1024 then JNull else JNum n)"
| "JSON_stringify (JArr xs) = JArr (map JSON_stringify xs)"
| "JSON_stringify (JObj ms) = JObj (enumerable (map (\<lambda>(k, v). (k, JSON_stringify v)) ms))"
| "JSON_stringify v = v"

text \<open>
  A document that parsing and serialising leave as it is: its numbers have at most 53
  binary digits, and its objects repeat no name and have no array index among their names.
\<close>

fun plain :: "json \<Rightarrow> bool" where
  "plain (JNum n) = (\<bar>n\<bar> < 2 ^ 53)"
| "plain (JArr xs) = list_all plain xs"
| "plain (JObj kvs) =
     (distinct (map fst kvs) \<and> list_all (\<lambda>(k, v). array_index k = None \<and> plain v) kvs)"
| "plain v = True"

subsection \<open>Responses of the route handlers\<close>

text \<open>What a route handler returns: the status and the body, as a document.\<close>

record http_response =
  resp_status :: nat
  resp_body :: json

text \<open>
  \<open>NextResponse.json(data, { status })\<close>. The response constructor throws a RangeError for
  a status outside 200 to 599 and a TypeError for a status that allows no body (204, 205,
  304), since the serialised \<open>data\<close> is a body.
\<close>

definition NextResponse_json :: "json \<Rightarrow> nat \<Rightarrow> exn + http_response" where
  "NextResponse_json data st =
     (if st < 200 \<or> 599 < st then Inl RangeError
      else if st = 204 \<or> st = 205 \<or> st = 304 then Inl TypeError
      else Inr \<lparr>resp_status = st, resp_body = JSON_stringify data\<rparr>)"

text \<open>
  \<open>process.env.NEXT_PUBLIC_API_BASE_URL || 'http://localhost:8000'\<close>; the environment
  variable is \<open>None\<close> when unset.
\<close>

definition BACKEND_URL :: "string option \<Rightarrow> string" where
  "BACKEND_URL env =
     (case env of
        None \<Rightarrow> ''http://localhost:8000''
      | Some u \<Rightarrow> if u \<noteq> [] then u else ''http://localhost:8000'')"

section \<open>The publish proxy: \<open>app/api/publish/[id]/route.ts\<close>\<close>

text \<open>
  The incoming request as the handler reads it: the \<open>id\<close> route parameter and the result
  of \<open>request.headers.get('Authorization')\<close>, \<open>None\<close> when the header is absent.
\<close>

record publish_request =
  pr_id :: string
  pr_authorization :: "string option"

record publish_call =
  pc_url :: string
  pc_method :: string
  pc_headers :: "(string \<times> string) list"

definition publish_failed :: "string \<Rightarrow> http_response" where
  "publish_failed e =
     \<lparr>resp_status = 500,
      resp_body = JObj [(''error'', JStr ''Failed to publish website''), (''detail'', JStr e)]\<rparr>"

text \<open>
  The handler \<open>POST\<close>. It makes exactly one backend call; \<open>backend\<close> is the outcome of
  that call. \<open>thrown\<close> is the text \<open>String(error)\<close> gives for the error
  \<open>NextResponse.json\<close> throws, when it throws. The result is the response to the client
  and the calls sent to the backend.
\<close>

definition publish_POST ::
  "string option \<Rightarrow> string \<Rightarrow> reply \<Rightarrow> publish_request \<Rightarrow>
   http_response \<times> publish_call list" where
  "publish_POST env thrown backend request =
     (let wid = pr_id request;
          authHeader = pr_authorization request;
          headers = [(''Content-Type'', ''application/json'')] @
                    (case authHeader of
                       None \<Rightarrow> []
                     | Some a \<Rightarrow> if a \<noteq> [] then [(''Authorization'', a)] else []);
          call = \<lparr>pc_url = BACKEND_URL env @ ''/api/publish/'' @ wid,
                  pc_method = ''POST'',
                  pc_headers = headers\<rparr>
      in case backend of
           Rejected e \<Rightarrow> (publish_failed e, [call])
         | Replied st (Inl e) \<Rightarrow> (publish_failed e, [call])
         | Replied st (Inr body) \<Rightarrow>
             (let data = JSON_parse body
              in case NextResponse_json data st of
                   Inl x \<Rightarrow> (publish_failed thrown, [call])
                 | Inr response \<Rightarrow> (response, [call])))"

section \<open>The voice transcription proxy\<close>

text \<open>A value of a multipart form: a string, or a file with its name.\<close>

datatype form_value = FText string | FFile blob string

fun form_truthy :: "form_value \<Rightarrow> bool" where
  "form_truthy (FText s) = (s \<noteq> [])"
| "form_truthy (FFile b n) = True"

type_synonym form_data = "(string \<times> form_value) list"

text \<open>\<open>formData.get(name)\<close>: the first value of that name, or \<open>null\<close>.\<close>

definition form_get :: "form_data \<Rightarrow> string \<Rightarrow> form_value option" where
  "form_get fd name = map_of fd name"

record voice_call =
  vc_url :: string
  vc_method :: string
  vc_body :: form_data

definition voice_failed :: http_response where
  "voice_failed =
     \<lparr>resp_status = 500, resp_body = JObj [(''error'', JStr ''Failed to process voice recording'')]\<rparr>"

definition no_audio :: http_response where
  "no_audio =
     \<lparr>resp_status = 400, resp_body = JObj [(''error'', JStr ''No audio file provided'')]\<rparr>"

text \<open>
  The handler \<open>POST\<close> of the voice route. The incoming request is the result of
  \<open>await request.formData()\<close>: \<open>None\<close> when the body is not form data and the call
  rejects. \<open>backend\<close> is the outcome of the one backend call, when it is made.
\<close>

definition voice_POST ::
  "string option \<Rightarrow> reply \<Rightarrow> form_data option \<Rightarrow> http_response \<times> voice_call list" where
  "voice_POST env backend request =
     (case request of
        None \<Rightarrow> (voice_failed, [])
      | Some formData \<Rightarrow>
          (let audioFile = form_get formData ''audio'';
               language =
                 (case form_get formData ''language'' of
                    None \<Rightarrow> FText ''auto''
                  | Some l \<Rightarrow> if form_truthy l then l else FText ''auto'')
           in case audioFile of
                None \<Rightarrow> (no_audio, [])
              | Some a \<Rightarrow>
                  if \<not> form_truthy a then (no_audio, [])
                  else
                    (let call = \<lparr>vc_url = BACKEND_URL env @ ''/api/voice/transcribe'',
                                 vc_method = ''POST'',
                                 vc_body = [(''audio'', a), (''language'', language)]\<rparr>
                     in case backend of
                          Rejected e \<Rightarrow> (voice_failed, [call])
                        | Replied st (Inl e) \<Rightarrow> (voice_failed, [call])
                        | Replied st (Inr body) \<Rightarrow>
                            (let data = JSON_parse body
                             in if ok st then
                                  (case NextResponse_json data 200 of
                                     Inl x \<Rightarrow> (voice_failed, [call])
                                   | Inr response \<Rightarrow> (response, [call]))
                                else
                                  (case get_prop data ''detail'' of
                                     Inl x \<Rightarrow> (voice_failed, [call])
                                   | Inr d \<Rightarrow>
                                       (case NextResponse_json
                                               (JObj [(''error'',
                                                  or_else d (JStr ''Transcription failed''))])
                                               st of
                                          Inl x \<Rightarrow> (voice_failed, [call])
                                        | Inr response \<Rightarrow> (response, [call])))))))"

section \<open>The recorder component: \<open>components/VoiceInput.tsx\<close>\<close>

text \<open>
  The repository holds two variants of the component. The first shows the recording for
  review before it is submitted (states idle, recording, review, processing); it is called
  the review variant here. The second can pause and submits as soon as the recording is
  finished (states idle, recording, paused, processing); it is called the auto variant.
\<close>

datatype variant = ReviewVariant | AutoVariant

datatype lang = En | Hi

text \<open>The entries of the translation table \<open>content[language]\<close> that \<open>setError\<close> is given.\<close>

datatype msgkey = permissionDenied | notSupported | recordingError

text \<open>
  The value of the \<open>error\<close> state: an entry of the translation table, or a value that came
  from a string literal or from the response body.
\<close>

datatype message = Localised lang msgkey | Shown json

datatype RecordingState = Idle | Recording | Paused | Review | Processing

subsection \<open>The browser's recorder\<close>

text \<open>\<open>MediaRecorder.state\<close>: \<open>'inactive'\<close>, \<open>'recording'\<close>, \<open>'paused'\<close>.\<close>

datatype recorder_state = Inactive | Capturing | Suspended

text \<open>
  A \<open>MediaRecorder\<close>, with the two variables its event handlers close over: the stream
  and the chosen \<open>mimeType\<close> (\<open>''\<close> when none was chosen). \<open>rec_options\<close> is the
  second argument of the constructor, \<open>None\<close> for \<open>undefined\<close>.
\<close>

record recorder =
  rec_state :: recorder_state
  rec_stream :: nat
  rec_mimeType :: string
  rec_options :: "string option"

definition new_MediaRecorder :: "nat \<Rightarrow> string \<Rightarrow> recorder" where
  "new_MediaRecorder stream mimeType =
     \<lparr>rec_state = Inactive, rec_stream = stream, rec_mimeType = mimeType,
      rec_options = (if mimeType \<noteq> [] then Some mimeType else None)\<rparr>"

text \<open>
  The recorder's methods. \<open>start\<close> throws on a recorder that is not inactive; \<open>stop\<close>,
  \<open>pause\<close> and \<open>resume\<close> are taken to throw on an inactive one, which is the stricter
  reading of the API and the one the handlers' guards protect against.
\<close>

definition rec_start :: "recorder \<Rightarrow> exn + recorder" where
  "rec_start r =
     (if rec_state r \<noteq> Inactive then Inl InvalidStateError else Inr (r\<lparr>rec_state := Capturing\<rparr>))"

definition rec_stop :: "recorder \<Rightarrow> exn + recorder" where
  "rec_stop r =
     (if rec_state r = Inactive then Inl InvalidStateError else Inr (r\<lparr>rec_state := Inactive\<rparr>))"

definition rec_pause :: "recorder \<Rightarrow> exn + recorder" where
  "rec_pause r =
     (if rec_state r = Inactive then Inl InvalidStateError else Inr (r\<lparr>rec_state := Suspended\<rparr>))"

definition rec_resume :: "recorder \<Rightarrow> exn + recorder" where
  "rec_resume r =
     (if rec_state r = Inactive then Inl InvalidStateError else Inr (r\<lparr>rec_state := Capturing\<rparr>))"

text \<open>\<open>new Blob(chunks, { type })\<close>: the chunks' bytes, concatenated in order.\<close>

definition new_Blob :: "blob list \<Rightarrow> string \<Rightarrow> blob" where
  "new_Blob chunks ty = \<lparr>blob_bytes = concat (map blob_bytes chunks), blob_type = ty\<rparr>"

subsection \<open>The session\<close>

text \<open>What \<open>fetch('/api/voice', ...)\<close> sends: the form's audio part, its file name, the language.\<close>

record upload =
  up_audio :: blob
  up_filename :: string
  up_language :: lang

text \<open>
  One component instance and the part of the world it acts on. The first ten fields are the
  component's \<open>useState\<close> values and \<open>useRef\<close> cells (\<open>audioUrl\<close>, \<open>isPlaying\<close> and
  \<open>audioRef\<close> exist in the review variant only and stay at their initial values in the
  other). The rest is the world:
  \<^item> \<open>streams\<close>: for each stream \<open>getUserMedia\<close> has handed out, whether its tracks are
    still live; a stream is named by its position;
  \<^item> \<open>timers\<close>: the handles of the intervals that are running; \<open>timerCount\<close> counts the
    intervals ever created, and a new handle is its successor, so that a handle is never
    0 and \<open>if (timerRef.current)\<close> tests for \<open>null\<close> only;
  \<^item> \<open>urls\<close>: the object URLs created and not revoked, \<open>urlCount\<close> those ever created;
  \<^item> \<open>transcriptions\<close>: the arguments \<open>onTranscription\<close> was called with, in order;
  \<^item> \<open>requests\<close>: the uploads sent to \<open>/api/voice\<close>, in order;
  \<^item> \<open>inflight\<close>: the calls of \<open>submitRecording\<close> suspended at \<open>await fetch\<close>; each
    holds the \<open>audioUrl\<close> its closure captured.
\<close>

record session =
  state :: RecordingState
  error :: message
  recordingTime :: nat
  audioUrl :: "nat option"
  isPlaying :: bool
  mediaRecorderRef :: "recorder option"
  audioChunksRef :: "blob list"
  timerRef :: "nat option"
  audioRef :: "nat option"
  audioBlobRef :: "blob option"
  streams :: "bool list"
  timers :: "nat list"
  timerCount :: nat
  urls :: "nat list"
  urlCount :: nat
  transcriptions :: "json list"
  requests :: "upload list"
  inflight :: "nat option list"

text \<open>The session of a freshly mounted component.\<close>

definition mount :: session where
  "mount =
     \<lparr>state = Idle, error = Shown (JStr []), recordingTime = 0, audioUrl = None,
      isPlaying = False, mediaRecorderRef = None, audioChunksRef = [], timerRef = None,
      audioRef = None, audioBlobRef = None, streams = [], timers = [], timerCount = 0,
      urls = [], urlCount = 0, transcriptions = [], requests = [], inflight = []\<rparr>"

text \<open>\<open>setInterval\<close> with the result stored in \<open>timerRef.current\<close>.\<close>

definition setInterval :: "session \<Rightarrow> session" where
  "setInterval s =
     s\<lparr>timerRef := Some (Suc (timerCount s)),
       timers := timers s @ [Suc (timerCount s)],
       timerCount := Suc (timerCount s)\<rparr>"

definition clearInterval :: "nat \<Rightarrow> session \<Rightarrow> session" where
  "clearInterval t s = s\<lparr>timers := removeAll t (timers s)\<rparr>"

text \<open>The interval's callback \<open>setRecordingTime(prev => prev + 1)\<close>, for a running interval.\<close>

definition tick :: "nat \<Rightarrow> session \<Rightarrow> session" where
  "tick t s = (if t \<in> set (timers s) then s\<lparr>recordingTime := recordingTime s + 1\<rparr> else s)"

text \<open>\<open>stream.getTracks().forEach(track => track.stop())\<close>.\<close>

definition stop_tracks :: "nat \<Rightarrow> session \<Rightarrow> session" where
  "stop_tracks stream s = s\<lparr>streams := (streams s)[stream := False]\<rparr>"

definition revokeObjectURL :: "nat \<Rightarrow> session \<Rightarrow> session" where
  "revokeObjectURL u s = s\<lparr>urls := removeAll u (urls s)\<rparr>"

subsection \<open>Starting\<close>

definition mimeTypes :: "string list" where
  "mimeTypes = [''audio/webm;codecs=opus'', ''audio/webm'', ''audio/mp4'', ''audio/ogg;codecs=opus'']"

text \<open>
  \<open>MediaRecorder.isTypeSupported\<close>, for a browser that supports the types listed in
  \<open>supported\<close>.
\<close>

definition isTypeSupported :: "string list \<Rightarrow> string \<Rightarrow> bool" where
  "isTypeSupported supported ty = (ty \<in> set supported)"

text \<open>The loop over \<open>mimeTypes\<close> that stops at the first supported type; \<open>''\<close> when none is.\<close>

fun pick_mimeType :: "string list \<Rightarrow> string list \<Rightarrow> string" where
  "pick_mimeType supported [] = []"
| "pick_mimeType supported (ty # tys) =
     (if isTypeSupported supported ty then ty else pick_mimeType supported tys)"

text \<open>
  What the \<open>catch\<close> of \<open>startRecording\<close> tells apart in what it catches: an \<open>Error\<close>
  whose name is \<open>NotAllowedError\<close>, or anything else.
\<close>

datatype js_error = NotAllowedError | OtherError

text \<open>
  What can throw once the stream is there: the type probe (\<open>MediaRecorder\<close> may be
  missing altogether), the recorder's constructor, its \<open>start\<close>.
\<close>

datatype fault = ProbeThrows js_error | ConstructorThrows js_error | StartThrows js_error

fun thrown_by :: "fault \<Rightarrow> js_error" where
  "thrown_by (ProbeThrows err) = err"
| "thrown_by (ConstructorThrows err) = err"
| "thrown_by (StartThrows err) = err"

text \<open>
  How the attempt goes as far as the browser decides it: \<open>navigator.mediaDevices\<close> or its
  \<open>getUserMedia\<close> is missing; \<open>getUserMedia\<close> rejects with a \<open>NotAllowedError\<close>; it
  rejects with anything else; it resolves with a stream and the recorder works; it
  resolves with a stream and then one of the recorder's operations throws.
\<close>

datatype media_access =
    NoMediaDevices
  | NotAllowed
  | OtherFailure
  | Granted
  | GrantedThen fault

text \<open>The \<open>catch\<close> block of \<open>startRecording\<close>.\<close>

definition caught :: "lang \<Rightarrow> js_error \<Rightarrow> session \<Rightarrow> session" where
  "caught language err s =
     (case err of
        NotAllowedError \<Rightarrow> s\<lparr>error := Localised language permissionDenied\<rparr>
      | OtherError \<Rightarrow> s\<lparr>error := Localised language recordingError\<rparr>)"

text \<open>
  The \<open>try\<close> block of \<open>startRecording\<close> from the point where \<open>getUserMedia\<close> has
  resolved; \<open>fault\<close> is the operation that throws, if one does. The block is the same in
  both variants but for the \<open>onstop\<close> handler it installs.
\<close>

definition capture :: "lang \<Rightarrow> string list \<Rightarrow> fault option \<Rightarrow> session \<Rightarrow> session" where
  "capture language supported fault s =
     (let stream = length (streams s);
          s2 = s\<lparr>streams := streams s @ [True]\<rparr>
      in case fault of
           Some (ProbeThrows err) \<Rightarrow> caught language err s2
         | Some (ConstructorThrows err) \<Rightarrow> caught language err s2
         | Some (StartThrows err) \<Rightarrow>
             (let mimeType = pick_mimeType supported mimeTypes;
                  mediaRecorder = new_MediaRecorder stream mimeType;
                  s3 = s2\<lparr>mediaRecorderRef := Some mediaRecorder, audioChunksRef := []\<rparr>
              in caught language err s3)
         | None \<Rightarrow>
             (let mimeType = pick_mimeType supported mimeTypes;
                  mediaRecorder = new_MediaRecorder stream mimeType;
                  s3 = s2\<lparr>mediaRecorderRef := Some mediaRecorder, audioChunksRef := []\<rparr>
              in case rec_start mediaRecorder of
                   Inl e \<Rightarrow> caught language OtherError s3
                 | Inr started \<Rightarrow>
                     setInterval
                       (s3\<lparr>mediaRecorderRef := Some started, state := Recording,
                           recordingTime := 0\<rparr>)))"

text \<open>\<open>startRecording\<close>, taken as one step, from the click to its end.\<close>

definition startRecording :: "lang \<Rightarrow> string list \<Rightarrow> media_access \<Rightarrow> session \<Rightarrow> session" where
  "startRecording language supported access s =
     (let s1 = s\<lparr>error := Shown (JStr [])\<rparr>
      in case access of
           NoMediaDevices \<Rightarrow> s1\<lparr>error := Localised language notSupported\<rparr>
         | NotAllowed \<Rightarrow> caught language NotAllowedError s1
         | OtherFailure \<Rightarrow> caught language OtherError s1
         | Granted \<Rightarrow> capture language supported None s1
         | GrantedThen fault \<Rightarrow> capture language supported (Some fault) s1)"

subsection \<open>The recorder's events\<close>

definition ondataavailable :: "blob \<Rightarrow> session \<Rightarrow> session" where
  "ondataavailable data s =
     (if blob_size data > 0 then s\<lparr>audioChunksRef := audioChunksRef s @ [data]\<rparr> else s)"

text \<open>The blob \<open>onstop\<close> assembles, with the type \<open>mimeType || 'audio/webm'\<close>.\<close>

definition assemble :: "string \<Rightarrow> session \<Rightarrow> blob" where
  "assemble mimeType s =
     new_Blob (audioChunksRef s) (if mimeType \<noteq> [] then mimeType else ''audio/webm'')"

text \<open>\<open>onstop\<close> of the review variant; \<open>stream\<close> and \<open>mimeType\<close> are the closure's.\<close>

definition onstop_review :: "nat \<Rightarrow> string \<Rightarrow> session \<Rightarrow> session" where
  "onstop_review stream mimeType s =
     (let s1 = stop_tracks stream s;
          audioBlob = assemble mimeType s1;
          s2 = s1\<lparr>audioBlobRef := Some audioBlob\<rparr>;
          url = Suc (urlCount s2);
          s3 = s2\<lparr>urls := urls s2 @ [url], urlCount := url\<rparr>
      in s3\<lparr>audioUrl := Some url, state := Review\<rparr>)"

definition onerror :: "lang \<Rightarrow> session \<Rightarrow> session" where
  "onerror language s = s\<lparr>error := Localised language recordingError, state := Idle\<rparr>"

subsection \<open>Stopping, pausing, resuming\<close>

text \<open>\<open>stopRecording\<close> of the review variant.\<close>

definition stopRecording :: "session \<Rightarrow> exn + session" where
  "stopRecording s =
     (let s1 = (case timerRef s of
                  None \<Rightarrow> s
                | Some t \<Rightarrow> (clearInterval t s)\<lparr>timerRef := None\<rparr>)
      in case mediaRecorderRef s1 of
           None \<Rightarrow> Inr s1
         | Some r \<Rightarrow>
             if rec_state r \<noteq> Inactive then
               (case rec_stop r of
                  Inl e \<Rightarrow> Inl e
                | Inr r' \<Rightarrow> Inr (s1\<lparr>mediaRecorderRef := Some r'\<rparr>))
             else Inr s1)"

text \<open>\<open>finishRecording\<close> of the auto variant: the same body.\<close>

definition finishRecording :: "session \<Rightarrow> exn + session" where
  "finishRecording s =
     (let s1 = (case timerRef s of
                  None \<Rightarrow> s
                | Some t \<Rightarrow> (clearInterval t s)\<lparr>timerRef := None\<rparr>)
      in case mediaRecorderRef s1 of
           None \<Rightarrow> Inr s1
         | Some r \<Rightarrow>
             if rec_state r \<noteq> Inactive then
               (case rec_stop r of
                  Inl e \<Rightarrow> Inl e
                | Inr r' \<Rightarrow> Inr (s1\<lparr>mediaRecorderRef := Some r'\<rparr>))
             else Inr s1)"

definition pauseRecording :: "session \<Rightarrow> exn + session" where
  "pauseRecording s =
     (case mediaRecorderRef s of
        None \<Rightarrow> Inr s
      | Some r \<Rightarrow>
          if rec_state r = Capturing then
            (case rec_pause r of
               Inl e \<Rightarrow> Inl e
             | Inr r' \<Rightarrow>
                 (let s1 = s\<lparr>mediaRecorderRef := Some r', state := Paused\<rparr>
                  in case timerRef s1 of
                       None \<Rightarrow> Inr s1
                     | Some t \<Rightarrow> Inr ((clearInterval t s1)\<lparr>timerRef := None\<rparr>)))
          else Inr s)"

definition resumeRecording :: "session \<Rightarrow> exn + session" where
  "resumeRecording s =
     (case mediaRecorderRef s of
        None \<Rightarrow> Inr s
      | Some r \<Rightarrow>
          if rec_state r = Suspended then
            (case rec_resume r of
               Inl e \<Rightarrow> Inl e
             | Inr r' \<Rightarrow> Inr (setInterval (s\<lparr>mediaRecorderRef := Some r', state := Recording\<rparr>)))
          else Inr s)"

subsection \<open>Playback and reset (review variant)\<close>

definition playAudio :: "session \<Rightarrow> session" where
  "playAudio s =
     (case audioUrl s of
        None \<Rightarrow> s
      | Some u \<Rightarrow>
          (let s1 = (if audioRef s = None then s\<lparr>audioRef := Some u\<rparr> else s)
           in if isPlaying s1 then s1\<lparr>isPlaying := False\<rparr> else s1\<lparr>isPlaying := True\<rparr>))"

text \<open>
  \<open>resetRecording\<close>. The first argument is the \<open>audioUrl\<close> of the render whose closure
  is called: the current one for a click, the captured one when \<open>submitRecording\<close> calls
  it after its \<open>await\<close>.
\<close>

definition resetRecording :: "nat option \<Rightarrow> session \<Rightarrow> session" where
  "resetRecording url s =
     (let s1 = (case url of None \<Rightarrow> s | Some u \<Rightarrow> revokeObjectURL u s);
          s2 = (if audioRef s1 \<noteq> None then s1\<lparr>audioRef := None\<rparr> else s1)
      in s2\<lparr>audioUrl := None, isPlaying := False, recordingTime := 0,
            audioBlobRef := None, state := Idle\<rparr>)"

subsection \<open>Submitting\<close>

text \<open>
  \<open>submitRecording\<close> up to its \<open>await fetch\<close>, the same in both variants: nothing
  happens without a blob; otherwise the upload is sent and the call is suspended.
\<close>

definition submit_begin :: "lang \<Rightarrow> session \<Rightarrow> session" where
  "submit_begin language s =
     (case audioBlobRef s of
        None \<Rightarrow> s
      | Some b \<Rightarrow>
          s\<lparr>state := Processing, error := Shown (JStr []),
            requests := requests s @
              [\<lparr>up_audio = b, up_filename = ''recording.webm'', up_language = language\<rparr>],
            inflight := inflight s @ [audioUrl s]\<rparr>)"

text \<open>
  The rest of \<open>submitRecording\<close> in the review variant, run on the session as it is when
  the fetch settles. \<open>url\<close> is the captured \<open>audioUrl\<close>. The callback is taken to return
  normally.
\<close>

definition submit_end_review :: "nat option \<Rightarrow> reply \<Rightarrow> session \<Rightarrow> session" where
  "submit_end_review url result s =
     (let caught = s\<lparr>error := Shown (JStr ''Failed to process recording''), state := Review\<rparr>
      in case result of
           Rejected e \<Rightarrow> caught
         | Replied st (Inl e) \<Rightarrow> caught
         | Replied st (Inr data) \<Rightarrow>
             (let failed =
                    (case get_prop data ''error'' of
                       Inl x \<Rightarrow> caught
                     | Inr err \<Rightarrow>
                         s\<lparr>error := Shown (or_else err (JStr ''Transcription failed'')),
                           state := Review\<rparr>)
              in if ok st then
                   (case get_prop data ''normalized_text'' of
                      Inl x \<Rightarrow> caught
                    | Inr None \<Rightarrow> failed
                    | Inr (Some text) \<Rightarrow>
                        if truthy text then
                          resetRecording url (s\<lparr>transcriptions := transcriptions s @ [text]\<rparr>)
                        else failed)
                 else failed))"

text \<open>The same in the auto variant, which resets in place and always returns to idle.\<close>

definition submit_end_auto :: "reply \<Rightarrow> session \<Rightarrow> session" where
  "submit_end_auto result s =
     (let caught = s\<lparr>error := Shown (JStr ''Failed to process recording''), state := Idle\<rparr>
      in case result of
           Rejected e \<Rightarrow> caught
         | Replied st (Inl e) \<Rightarrow> caught
         | Replied st (Inr data) \<Rightarrow>
             (let failed =
                    (case get_prop data ''error'' of
                       Inl x \<Rightarrow> caught
                     | Inr err \<Rightarrow>
                         s\<lparr>error := Shown (or_else err (JStr ''Transcription failed'')),
                           state := Idle\<rparr>)
              in if ok st then
                   (case get_prop data ''normalized_text'' of
                      Inl x \<Rightarrow> caught
                    | Inr None \<Rightarrow> failed
                    | Inr (Some text) \<Rightarrow>
                        if truthy text then
                          s\<lparr>transcriptions := transcriptions s @ [text], recordingTime := 0,
                            audioBlobRef := None, state := Idle\<rparr>
                        else failed)
                 else failed))"

text \<open>The response to the oldest suspended call arrives.\<close>

definition settle :: "variant \<Rightarrow> reply \<Rightarrow> session \<Rightarrow> session" where
  "settle v result s =
     (case inflight s of
        [] \<Rightarrow> s
      | url # rest \<Rightarrow>
          (case v of
             ReviewVariant \<Rightarrow> submit_end_review url result (s\<lparr>inflight := rest\<rparr>)
           | AutoVariant \<Rightarrow> submit_end_auto result (s\<lparr>inflight := rest\<rparr>)))"

text \<open>
  \<open>submitRecording\<close> with nothing happening between the upload and its response: the
  whole call as one step.
\<close>

definition submitRecording :: "variant \<Rightarrow> lang \<Rightarrow> reply \<Rightarrow> session \<Rightarrow> session" where
  "submitRecording v language result s =
     (case audioBlobRef s of
        None \<Rightarrow> s
      | Some b \<Rightarrow>
          (let s1 = submit_begin language s
           in case v of
                ReviewVariant \<Rightarrow>
                  submit_end_review (audioUrl s) result (s1\<lparr>inflight := butlast (inflight s1)\<rparr>)
              | AutoVariant \<Rightarrow>
                  submit_end_auto result (s1\<lparr>inflight := butlast (inflight s1)\<rparr>)))"

text \<open>
  \<open>onstop\<close> of the auto variant, up to the \<open>await fetch\<close> of the \<open>submitRecording\<close> it
  calls.
\<close>

definition onstop_auto :: "lang \<Rightarrow> nat \<Rightarrow> string \<Rightarrow> session \<Rightarrow> session" where
  "onstop_auto language stream mimeType s =
     (let s1 = stop_tracks stream s;
          audioBlob = assemble mimeType s1;
          s2 = s1\<lparr>audioBlobRef := Some audioBlob\<rparr>
      in submit_begin language s2)"

subsection \<open>The effect's cleanup\<close>

text \<open>
  The function the \<open>useEffect\<close> returns. React runs it at unmount, and in the review
  variant also whenever \<open>audioUrl\<close> changes; \<open>url\<close> is the \<open>audioUrl\<close> it captured.
\<close>

definition cleanup_recorder :: "session \<Rightarrow> exn + session" where
  "cleanup_recorder s =
     (case mediaRecorderRef s of
        None \<Rightarrow> Inr s
      | Some r \<Rightarrow>
          if rec_state r \<noteq> Inactive then
            (case rec_stop r of
               Inl e \<Rightarrow> Inl e
             | Inr r' \<Rightarrow> Inr (s\<lparr>mediaRecorderRef := Some r'\<rparr>))
          else Inr s)"

definition cleanup_review :: "nat option \<Rightarrow> session \<Rightarrow> exn + session" where
  "cleanup_review url s =
     (let s1 = (case timerRef s of None \<Rightarrow> s | Some t \<Rightarrow> clearInterval t s);
          s2 = (case url of None \<Rightarrow> s1 | Some u \<Rightarrow> revokeObjectURL u s1)
      in cleanup_recorder s2)"

definition cleanup_auto :: "session \<Rightarrow> exn + session" where
  "cleanup_auto s =
     (let s1 = (case timerRef s of None \<Rightarrow> s | Some t \<Rightarrow> clearInterval t s)
      in cleanup_recorder s1)"

subsection \<open>Sessions as sequences of events\<close>

text \<open>
  What can happen to a mounted component: the user's clicks, the recorder's events for the
  recorder \<open>mediaRecorderRef\<close> holds, an interval firing, a response arriving, the
  effect's cleanup running because \<open>audioUrl\<close> changed (with the \<open>audioUrl\<close> it
  captured), the unmount. An event a variant has no handler for leaves the session as it
  is. The handlers do not test \<open>state\<close>; which buttons a render shows is not part of them.
  A recorder whose \<open>stop\<close> event fires is inactive by then, whatever stopped it.
\<close>

datatype event =
    ClickRecord "string list" media_access
  | DataAvailable blob
  | ClickStop
  | RecorderStop
  | RecorderError
  | ClickPause
  | ClickResume
  | ClickPlay
  | ClickRecordAgain
  | ClickUseThis
  | Response reply
  | Interval nat
  | EffectCleanup "nat option"
  | Unmount

fun handle :: "variant \<Rightarrow> lang \<Rightarrow> event \<Rightarrow> session \<Rightarrow> exn + session" where
  "handle v language (ClickRecord supported access) s =
     Inr (startRecording language supported access s)"
| "handle v language (DataAvailable data) s = Inr (ondataavailable data s)"
| "handle ReviewVariant language ClickStop s = stopRecording s"
| "handle AutoVariant language ClickStop s = finishRecording s"
| "handle ReviewVariant language RecorderStop s =
     (case mediaRecorderRef s of
        None \<Rightarrow> Inr s
      | Some r \<Rightarrow>
          Inr (onstop_review (rec_stream r) (rec_mimeType r)
                 (s\<lparr>mediaRecorderRef := Some (r\<lparr>rec_state := Inactive\<rparr>)\<rparr>)))"
| "handle AutoVariant language RecorderStop s =
     (case mediaRecorderRef s of
        None \<Rightarrow> Inr s
      | Some r \<Rightarrow>
          Inr (onstop_auto language (rec_stream r) (rec_mimeType r)
                 (s\<lparr>mediaRecorderRef := Some (r\<lparr>rec_state := Inactive\<rparr>)\<rparr>)))"
| "handle v language RecorderError s = Inr (onerror language s)"
| "handle AutoVariant language ClickPause s = pauseRecording s"
| "handle ReviewVariant language ClickPause s = Inr s"
| "handle AutoVariant language ClickResume s = resumeRecording s"
| "handle ReviewVariant language ClickResume s = Inr s"
| "handle ReviewVariant language ClickPlay s = Inr (playAudio s)"
| "handle AutoVariant language ClickPlay s = Inr s"
| "handle ReviewVariant language ClickRecordAgain s = Inr (resetRecording (audioUrl s) s)"
| "handle AutoVariant language ClickRecordAgain s = Inr s"
| "handle ReviewVariant language ClickUseThis s = Inr (submit_begin language s)"
| "handle AutoVariant language ClickUseThis s = Inr s"
| "handle v language (Response result) s = Inr (settle v result s)"
| "handle v language (Interval t) s = Inr (tick t s)"
| "handle ReviewVariant language (EffectCleanup url) s = cleanup_review url s"
| "handle AutoVariant language (EffectCleanup url) s = Inr s"
| "handle ReviewVariant language Unmount s = cleanup_review (audioUrl s) s"
| "handle AutoVariant language Unmount s = cleanup_auto s"

subsection \<open>Rendering\<close>

text \<open>
  What React accepts as a child: text, numbers, booleans and \<open>null\<close>, and arrays of
  such; an object is refused with an exception.
\<close>

fun renderable :: "json \<Rightarrow> bool" where
  "renderable (JObj kvs) = False"
| "renderable (JArr xs) = list_all renderable xs"
| "renderable v = True"

fun displayable :: "message \<Rightarrow> bool" where
  "displayable (Localised language key) = True"
| "displayable (Shown v) = renderable v"

fun visible :: "message \<Rightarrow> bool" where
  "visible (Localised language key) = True"
| "visible (Shown v) = truthy v"

datatype control =
    RecordButton
  | StopButton
  | PlayButton
  | RecordAgainButton
  | UseThisButton
  | PauseButton
  | ResumeButton
  | FinishButton

record view =
  view_error :: "message option"
  view_controls :: "control list"

text \<open>The buttons the component's JSX shows in a state.\<close>

fun controls :: "variant \<Rightarrow> RecordingState \<Rightarrow> control list" where
  "controls v Idle = [RecordButton]"
| "controls ReviewVariant Recording = [StopButton]"
| "controls ReviewVariant Review = [PlayButton, RecordAgainButton, UseThisButton]"
| "controls AutoVariant Recording = [PauseButton, FinishButton]"
| "controls AutoVariant Paused = [ResumeButton, FinishButton]"
| "controls v st = []"

text \<open>
  The component's render: \<open>{error && <p className="voice-error">{error}</p>}\<close> and the
  view of the state. It throws when \<open>error\<close> is not something React accepts as a child.
\<close>

definition render :: "variant \<Rightarrow> session \<Rightarrow> exn + view" where
  "render v s =
     (if \<not> displayable (error s) then Inl RenderError
      else Inr \<lparr>view_error = (if visible (error s) then Some (error s) else None),
                view_controls = controls v (state s)\<rparr>)"

text \<open>
  The events in order. After each event's handler the component renders; an exception no
  handler catches, or one thrown by the render, ends the run.
\<close>

fun run :: "variant \<Rightarrow> lang \<Rightarrow> event list \<Rightarrow> session \<Rightarrow> exn + session" where
  "run v language [] s = Inr s"
| "run v language (e # es) s =
     (case handle v language e s of
        Inl x \<Rightarrow> Inl x
      | Inr s' \<Rightarrow>
          (case render v s' of
             Inl x \<Rightarrow> Inl x
           | Inr shown \<Rightarrow> run v language es s'))"

section \<open>Properties of the recorder\<close>

subsection \<open>Facts about the handlers\<close>

lemmas end_defs =
  submit_end_review_def submit_end_auto_def resetRecording_def revokeObjectURL_def Let_def

lemmas submit_defs = submitRecording_def submit_begin_def end_defs ok_def

lemma submit_end_review_state:
  "state (submit_end_review url result s) = Idle \<or> state (submit_end_review url result s) = Review"
  by (simp add: end_defs split: reply.splits sum.splits option.splits)

lemma submit_end_review_requests: "requests (submit_end_review url result s) = requests s"
  by (simp add: end_defs split: reply.splits sum.splits option.splits)

lemma submit_end_auto_state: "state (submit_end_auto result s) = Idle"
  by (simp add: end_defs split: reply.splits sum.splits option.splits)

lemma submit_end_auto_requests: "requests (submit_end_auto result s) = requests s"
  by (simp add: end_defs split: reply.splits sum.splits option.splits)

lemma submit_end_review_transcriptions:
  "transcriptions (submit_end_review url result s) =
     (case result of
        Replied st (Inr (JObj kvs)) \<Rightarrow>
          (case map_of (rev kvs) ''normalized_text'' of
             Some text \<Rightarrow>
               if ok st \<and> truthy text then transcriptions s @ [text] else transcriptions s
           | None \<Rightarrow> transcriptions s)
      | _ \<Rightarrow> transcriptions s)"
  by (simp add: end_defs split: reply.splits sum.splits option.splits json.splits)

lemma submit_end_auto_transcriptions:
  "transcriptions (submit_end_auto result s) =
     (case result of
        Replied st (Inr (JObj kvs)) \<Rightarrow>
          (case map_of (rev kvs) ''normalized_text'' of
             Some text \<Rightarrow>
               if ok st \<and> truthy text then transcriptions s @ [text] else transcriptions s
           | None \<Rightarrow> transcriptions s)
      | _ \<Rightarrow> transcriptions s)"
  by (simp add: end_defs split: reply.splits sum.splits option.splits json.splits)

text \<open>The loop over the preference list returns the first supported entry.\<close>

lemma pick_mimeType_first:
  assumes "\<exists>ty \<in> set tys. isTypeSupported supported ty"
  shows "\<exists>i < length tys. pick_mimeType supported tys = tys ! i \<and>
           isTypeSupported supported (tys ! i) \<and>
           (\<forall>j < i. \<not> isTypeSupported supported (tys ! j))"
  using assms
proof (induction tys)
  case Nil
  then show ?case by simp
next
  case (Cons ty tys)
  show ?case
  proof (cases "isTypeSupported supported ty")
    case True
    then have "pick_mimeType supported (ty # tys) = (ty # tys) ! 0 \<and>
        isTypeSupported supported ((ty # tys) ! 0) \<and>
        (\<forall>j < 0. \<not> isTypeSupported supported ((ty # tys) ! j))"
      by simp
    then show ?thesis by blast
  next
    case False
    with Cons.prems have "\<exists>ty \<in> set tys. isTypeSupported supported ty" by auto
    from Cons.IH [OF this] obtain i where i: "i < length tys"
      "pick_mimeType supported tys = tys ! i" "isTypeSupported supported (tys ! i)"
      "\<forall>j < i. \<not> isTypeSupported supported (tys ! j)" by blast
    have "\<forall>j < Suc i. \<not> isTypeSupported supported ((ty # tys) ! j)"
      using False i(4) by (auto simp: less_Suc_eq_0_disj)
    with i False have "Suc i < length (ty # tys) \<and>
        pick_mimeType supported (ty # tys) = (ty # tys) ! Suc i \<and>
        isTypeSupported supported ((ty # tys) ! Suc i) \<and>
        (\<forall>j < Suc i. \<not> isTypeSupported supported ((ty # tys) ! j))"
      by simp
    then show ?thesis by blast
  qed
qed

lemma pick_mimeType_none:
  "\<not> (\<exists>ty \<in> set tys. isTypeSupported supported ty) \<Longrightarrow> pick_mimeType supported tys = []"
  by (induction tys) auto

lemma pick_mimeType_nonempty:
  "\<exists>ty \<in> set mimeTypes. isTypeSupported supported ty \<Longrightarrow>
   pick_mimeType supported mimeTypes \<noteq> []"
  by (auto simp: mimeTypes_def)

text \<open>\<open>startRecording\<close> once the microphone is granted, as one update of the session.\<close>

lemma startRecording_Granted:
  "startRecording language supported Granted s =
     s\<lparr>error := Shown (JStr []),
       streams := streams s @ [True],
       mediaRecorderRef :=
         Some \<lparr>rec_state = Capturing, rec_stream = length (streams s),
               rec_mimeType = pick_mimeType supported mimeTypes,
               rec_options = (if pick_mimeType supported mimeTypes \<noteq> []
                              then Some (pick_mimeType supported mimeTypes) else None)\<rparr>,
       audioChunksRef := [], state := Recording, recordingTime := 0,
       timerRef := Some (Suc (timerCount s)),
       timers := timers s @ [Suc (timerCount s)],
       timerCount := Suc (timerCount s)\<rparr>"
  by (simp add: startRecording_def capture_def Let_def new_MediaRecorder_def rec_start_def
      setInterval_def)

text \<open>\<open>startRecording\<close> when an operation of the recorder throws after the stream is there.\<close>

lemma startRecording_fault:
  "state (startRecording language supported (GrantedThen fault) s) = state s \<and>
   timers (startRecording language supported (GrantedThen fault) s) = timers s \<and>
   timerRef (startRecording language supported (GrantedThen fault) s) = timerRef s \<and>
   error (startRecording language supported (GrantedThen fault) s) =
     (case thrown_by fault of
        NotAllowedError \<Rightarrow> Localised language permissionDenied
      | OtherError \<Rightarrow> Localised language recordingError)"
  by (cases fault; cases "thrown_by fault")
    (simp_all add: startRecording_def capture_def caught_def Let_def)

lemma assemble_empty: "audioChunksRef s = [] \<Longrightarrow> blob_size (assemble mimeType s) = 0"
  by (simp add: assemble_def new_Blob_def blob_size_def)

lemma run_append:
  "run v language (es @ es') s =
     (case run v language es s of Inl x \<Rightarrow> Inl x | Inr s' \<Rightarrow> run v language es' s')"
  by (induction es arbitrary: s) (simp_all split: sum.splits)

text \<open>A data event of size 0 changes nothing and the render that follows it succeeds.\<close>

lemma empty_data_ignored:
  assumes "\<forall>d \<in> set ds. blob_size d = 0" and "displayable (error s)"
  shows "run v language (map DataAvailable ds @ es) s = run v language es s"
  using assms by (induction ds) (simp_all add: ondataavailable_def render_def)

lemma stop_run_review:
  assumes "\<forall>d \<in> set (early @ late). blob_size d = 0"
  shows "\<exists>s'. run ReviewVariant language
              ([ClickRecord supported Granted] @ map DataAvailable early @ [ClickStop] @
               map DataAvailable late @ [RecorderStop]) s = Inr s' \<and>
     audioChunksRef s' = [] \<and> state s' = Review \<and> requests s' = requests s \<and>
     inflight s' = inflight s \<and> error s' = Shown (JStr []) \<and>
     audioBlobRef s' = Some (assemble (pick_mimeType supported mimeTypes) s')"
  using assms
  by (simp add: empty_data_ignored startRecording_Granted render_def stopRecording_def
      clearInterval_def rec_stop_def onstop_review_def stop_tracks_def assemble_def Let_def)

lemma stop_run_auto:
  assumes "\<forall>d \<in> set (early @ late). blob_size d = 0"
  shows "\<exists>s'. run AutoVariant language
              ([ClickRecord supported Granted] @ map DataAvailable early @ [ClickStop] @
               map DataAvailable late @ [RecorderStop]) s = Inr s' \<and>
     audioChunksRef s' = [] \<and> state s' = Processing \<and>
     requests s' = requests s @
       [\<lparr>up_audio = assemble (pick_mimeType supported mimeTypes) s',
         up_filename = ''recording.webm'', up_language = language\<rparr>] \<and>
     inflight s' = inflight s @ [audioUrl s] \<and> error s' = Shown (JStr []) \<and>
     audioBlobRef s' = Some (assemble (pick_mimeType supported mimeTypes) s')"
  using assms
  by (simp add: empty_data_ignored startRecording_Granted render_def finishRecording_def
      clearInterval_def rec_stop_def onstop_auto_def submit_begin_def stop_tracks_def
      assemble_def Let_def)

text \<open>Which replies leave an error behind that the render refuses.\<close>

lemma not_renderable_truthy: "\<not> renderable e \<Longrightarrow> truthy e"
  by (cases e) simp_all

lemma or_else_renderable:
  "renderable d \<Longrightarrow> renderable (or_else v d) \<longleftrightarrow> (\<forall>e. v = Some e \<longrightarrow> renderable e)"
  using not_renderable_truthy by (cases v) auto

lemma submit_end_review_displayable:
  assumes "displayable (error t)"
  shows "displayable (error (submit_end_review url result t)) \<longleftrightarrow>
           \<not> (\<exists>st kvs e. result = Replied st (Inr (JObj kvs)) \<and>
                 map_of (rev kvs) ''error'' = Some e \<and> \<not> renderable e \<and>
                 \<not> (ok st \<and> (\<exists>text. map_of (rev kvs) ''normalized_text'' = Some text \<and>
                                 truthy text)))"
proof (cases result)
  case (Rejected e)
  then show ?thesis by (simp add: end_defs)
next
  case (Replied st body)
  show ?thesis
  proof (cases body)
    case (Inl e)
    with Replied show ?thesis by (simp add: end_defs)
  next
    case (Inr data)
    with Replied assms show ?thesis
      by (cases data)
        (auto simp: end_defs or_else_renderable split: option.splits)
  qed
qed

lemma submit_end_auto_displayable:
  assumes "displayable (error t)"
  shows "displayable (error (submit_end_auto result t)) \<longleftrightarrow>
           \<not> (\<exists>st kvs e. result = Replied st (Inr (JObj kvs)) \<and>
                 map_of (rev kvs) ''error'' = Some e \<and> \<not> renderable e \<and>
                 \<not> (ok st \<and> (\<exists>text. map_of (rev kvs) ''normalized_text'' = Some text \<and>
                                 truthy text)))"
proof (cases result)
  case (Rejected e)
  then show ?thesis by (simp add: end_defs)
next
  case (Replied st body)
  show ?thesis
  proof (cases body)
    case (Inl e)
    with Replied show ?thesis by (simp add: end_defs)
  next
    case (Inr data)
    with Replied assms show ?thesis
      by (cases data)
        (auto simp: end_defs or_else_renderable split: option.splits)
  qed
qed

subsection \<open>The claims\<close>

text \<open>
  C1, as the handlers have it. A reset neither cancels a request in flight nor makes its
  response be ignored: the rest of \<open>submitRecording\<close> reads neither the blob reference nor
  the state. In either variant, whatever has happened to the session since the upload
  (a reset included), the arriving response makes \<open>onTranscription\<close> be called, once and
  with \<open>normalized_text\<close>, exactly when its status is 2xx and its JSON body is an object
  whose \<open>normalized_text\<close> is truthy.
\<close>

theorem late_response_still_calls_back:
  assumes "inflight s = url # rest"
  shows "transcriptions (settle v result s) =
     (case result of
        Replied st (Inr (JObj kvs)) \<Rightarrow>
          (case map_of (rev kvs) ''normalized_text'' of
             Some text \<Rightarrow>
               if ok st \<and> truthy text then transcriptions s @ [text] else transcriptions s
           | None \<Rightarrow> transcriptions s)
      | _ \<Rightarrow> transcriptions s)"
  using assms
  by (cases v)
    (simp_all add: settle_def submit_end_review_transcriptions submit_end_auto_transcriptions
       split: reply.splits sum.splits json.splits option.splits)

theorem late_response_still_calls_back_witness:
  "inflight
     (resetRecording (Some 1)
        (submit_begin En
           (onstop_review 0 ''audio/webm''
              (startRecording En [''audio/webm''] Granted mount)))) = [Some 1] \<and>
   state
     (resetRecording (Some 1)
        (submit_begin En
           (onstop_review 0 ''audio/webm''
              (startRecording En [''audio/webm''] Granted mount)))) = Idle \<and>
   audioBlobRef
     (resetRecording (Some 1)
        (submit_begin En
           (onstop_review 0 ''audio/webm''
              (startRecording En [''audio/webm''] Granted mount)))) = None \<and>
   transcriptions
     (settle ReviewVariant (Replied 200 (Inr (JObj [(''normalized_text'', JStr ''hello'')])))
        (resetRecording (Some 1)
        (submit_begin En
           (onstop_review 0 ''audio/webm''
              (startRecording En [''audio/webm''] Granted mount))))) = [JStr ''hello'']"
  using late_response_still_calls_back
    [of "resetRecording (Some 1)
        (submit_begin En
           (onstop_review 0 ''audio/webm''
              (startRecording En [''audio/webm''] Granted mount)))"
        "Some 1" "[]" ReviewVariant
        "Replied 200 (Inr (JObj [(''normalized_text'', JStr ''hello'')]))"]
  by (simp add: startRecording_Granted mount_def onstop_review_def stop_tracks_def assemble_def
      new_Blob_def submit_begin_def resetRecording_def revokeObjectURL_def ok_def Let_def)

text \<open>
  C1 as the specification words it fails in the review variant: record, stop, submit,
  reset while the request is in flight (the session is idle and the blob reference is
  cleared), then the response arrives and the callback is called with \<open>"hello"\<close>.
\<close>

theorem reset_in_flight_counterexample:
  "map_sum id state
     (run ReviewVariant En
        [ClickRecord [''audio/webm''] Granted,
         DataAvailable \<lparr>blob_bytes = [1, 2, 3], blob_type = ''audio/webm''\<rparr>,
         ClickStop, RecorderStop, ClickUseThis, ClickRecordAgain] mount) = Inr Idle \<and>
   map_sum id audioBlobRef
     (run ReviewVariant En
        [ClickRecord [''audio/webm''] Granted,
         DataAvailable \<lparr>blob_bytes = [1, 2, 3], blob_type = ''audio/webm''\<rparr>,
         ClickStop, RecorderStop, ClickUseThis, ClickRecordAgain] mount) = Inr None \<and>
   map_sum id inflight
     (run ReviewVariant En
        [ClickRecord [''audio/webm''] Granted,
         DataAvailable \<lparr>blob_bytes = [1, 2, 3], blob_type = ''audio/webm''\<rparr>,
         ClickStop, RecorderStop, ClickUseThis, ClickRecordAgain] mount) = Inr [Some 1] \<and>
   map_sum id transcriptions
     (run ReviewVariant En
        [ClickRecord [''audio/webm''] Granted,
         DataAvailable \<lparr>blob_bytes = [1, 2, 3], blob_type = ''audio/webm''\<rparr>,
         ClickStop, RecorderStop, ClickUseThis, ClickRecordAgain] mount) = Inr [] \<and>
   map_sum id transcriptions
     (run ReviewVariant En
        [ClickRecord [''audio/webm''] Granted,
         DataAvailable \<lparr>blob_bytes = [1, 2, 3], blob_type = ''audio/webm''\<rparr>,
         ClickStop, RecorderStop, ClickUseThis, ClickRecordAgain,
         Response (Replied 200 (Inr (JObj [(''normalized_text'', JStr ''hello'')])))] mount) =
     Inr [JStr ''hello'']"
  by code_simp

text \<open>
  C2, as the handler has it. When the microphone is granted and the recorder's probe,
  constructor and start do not throw, \<open>startRecording\<close> creates a recorder on the new
  stream and starts capture: the state is recording, the timer value is 0 and a new
  interval runs (its tick counts). If the browser supports a type of the preference list,
  the recorder is given the first such type. If it supports none, the recorder is created
  without a type option and capture starts all the same. If one of the recorder's
  operations throws, the \<open>catch\<close> reports an error and capture is not started: state,
  running intervals and timer reference stay as they were.
\<close>

theorem startRecording_selects_first_supported:
  assumes "s' = startRecording language supported Granted s"
  shows "(\<exists>r. mediaRecorderRef s' = Some r \<and> rec_state r = Capturing \<and> state s' = Recording \<and>
            rec_stream r = length (streams s) \<and> streams s' = streams s @ [True] \<and>
            timerRef s' = Some (Suc (timerCount s)) \<and>
            timers s' = timers s @ [Suc (timerCount s)] \<and>
            recordingTime s' = 0 \<and>
            recordingTime (tick (Suc (timerCount s)) s') = 1 \<and>
            audioChunksRef s' = [] \<and>
            (if \<exists>ty \<in> set mimeTypes. isTypeSupported supported ty then
               \<exists>i < length mimeTypes.
                  rec_mimeType r = mimeTypes ! i \<and> rec_options r = Some (mimeTypes ! i) \<and>
                  isTypeSupported supported (mimeTypes ! i) \<and>
                  (\<forall>j < i. \<not> isTypeSupported supported (mimeTypes ! j))
             else rec_mimeType r = [] \<and> rec_options r = None)) \<and>
         (\<forall>fault.
            state (startRecording language supported (GrantedThen fault) s) = state s \<and>
            timers (startRecording language supported (GrantedThen fault) s) = timers s \<and>
            timerRef (startRecording language supported (GrantedThen fault) s) = timerRef s \<and>
            error (startRecording language supported (GrantedThen fault) s) =
              (case thrown_by fault of
                 NotAllowedError \<Rightarrow> Localised language permissionDenied
               | OtherError \<Rightarrow> Localised language recordingError))"
proof (rule conjI)
  show "\<exists>r. mediaRecorderRef s' = Some r \<and> rec_state r = Capturing \<and> state s' = Recording \<and>
            rec_stream r = length (streams s) \<and> streams s' = streams s @ [True] \<and>
            timerRef s' = Some (Suc (timerCount s)) \<and>
            timers s' = timers s @ [Suc (timerCount s)] \<and>
            recordingTime s' = 0 \<and>
            recordingTime (tick (Suc (timerCount s)) s') = 1 \<and>
            audioChunksRef s' = [] \<and>
            (if \<exists>ty \<in> set mimeTypes. isTypeSupported supported ty then
               \<exists>i < length mimeTypes.
                  rec_mimeType r = mimeTypes ! i \<and> rec_options r = Some (mimeTypes ! i) \<and>
                  isTypeSupported supported (mimeTypes ! i) \<and>
                  (\<forall>j < i. \<not> isTypeSupported supported (mimeTypes ! j))
             else rec_mimeType r = [] \<and> rec_options r = None)"
  proof (cases "\<exists>ty \<in> set mimeTypes. isTypeSupported supported ty")
    case True
    from pick_mimeType_first [OF True] obtain i where i: "i < length mimeTypes"
      "pick_mimeType supported mimeTypes = mimeTypes ! i"
      "isTypeSupported supported (mimeTypes ! i)"
      "\<forall>j < i. \<not> isTypeSupported supported (mimeTypes ! j)" by blast
    have ne: "pick_mimeType supported mimeTypes \<noteq> []"
      using True by (rule pick_mimeType_nonempty)
    show ?thesis
      using True i ne unfolding assms startRecording_Granted by (auto simp: tick_def)
  next
    case False
    then have "pick_mimeType supported mimeTypes = []" by (rule pick_mimeType_none)
    with False show ?thesis
      unfolding assms startRecording_Granted by (simp add: tick_def)
  qed
  show "\<forall>fault.
            state (startRecording language supported (GrantedThen fault) s) = state s \<and>
            timers (startRecording language supported (GrantedThen fault) s) = timers s \<and>
            timerRef (startRecording language supported (GrantedThen fault) s) = timerRef s \<and>
            error (startRecording language supported (GrantedThen fault) s) =
              (case thrown_by fault of
                 NotAllowedError \<Rightarrow> Localised language permissionDenied
               | OtherError \<Rightarrow> Localised language recordingError)"
    using startRecording_fault by blast
qed

theorem startRecording_selects_first_supported_witness:
  "mediaRecorderRef (startRecording En [''audio/ogg;codecs=opus'', ''audio/mp4''] Granted mount) =
     Some \<lparr>rec_state = Capturing, rec_stream = 0, rec_mimeType = ''audio/mp4'',
           rec_options = Some ''audio/mp4''\<rparr> \<and>
   timers (startRecording En [''audio/ogg;codecs=opus'', ''audio/mp4''] Granted mount) = [1]"
  using startRecording_selects_first_supported
    [of "startRecording En [''audio/ogg;codecs=opus'', ''audio/mp4''] Granted mount" En
        "[''audio/ogg;codecs=opus'', ''audio/mp4'']" mount]
  by (simp add: startRecording_Granted mount_def mimeTypes_def isTypeSupported_def)

text \<open>
  C2 as the specification words it fails in a browser that supports none of the four
  types: capture starts, with a recorder created without a type option.
\<close>

theorem startRecording_none_supported_counterexample:
  "state (startRecording En [] Granted mount) = Recording \<and>
   mediaRecorderRef (startRecording En [] Granted mount) =
     Some \<lparr>rec_state = Capturing, rec_stream = 0, rec_mimeType = [], rec_options = None\<rparr> \<and>
   streams (startRecording En [] Granted mount) = [True] \<and>
   timers (startRecording En [] Granted mount) = [1]"
  by (simp add: startRecording_Granted mount_def mimeTypes_def isTypeSupported_def)

text \<open>
  C3 at the recorder's error event. \<open>onerror\<close> leaves the running intervals, the timer
  reference and the streams as they are and sets the state to idle. So after a granted
  start and a recorder error the auto variant is idle while its interval runs on (a tick
  still counts) and the stream's tracks are live; a second start then leaves two running
  intervals and two live streams. The review variant's \<open>onerror\<close> is the same. When the
  recorder's stop event follows the error, the stream is released, but in the auto variant
  the interval still runs on, and the next start leaves two running intervals.
\<close>

theorem recorder_error_keeps_timer_and_stream:
  "(timers (onerror language s) = timers s \<and> timerRef (onerror language s) = timerRef s \<and>
    streams (onerror language s) = streams s \<and> state (onerror language s) = Idle) \<and>
   (map_sum id state
      (run AutoVariant En [ClickRecord [''audio/webm''] Granted, RecorderError] mount) =
      Inr Idle \<and>
    map_sum id timers
      (run AutoVariant En [ClickRecord [''audio/webm''] Granted, RecorderError] mount) =
      Inr [1] \<and>
    map_sum id streams
      (run AutoVariant En [ClickRecord [''audio/webm''] Granted, RecorderError] mount) =
      Inr [True] \<and>
    map_sum id recordingTime
      (run AutoVariant En [ClickRecord [''audio/webm''] Granted, RecorderError, Interval 1]
         mount) = Inr 1 \<and>
    map_sum id timers
      (run AutoVariant En
         [ClickRecord [''audio/webm''] Granted, RecorderError,
          ClickRecord [''audio/webm''] Granted] mount) = Inr [1, 2] \<and>
    map_sum id streams
      (run AutoVariant En
         [ClickRecord [''audio/webm''] Granted, RecorderError,
          ClickRecord [''audio/webm''] Granted] mount) = Inr [True, True] \<and>
    map_sum id timers
      (run ReviewVariant En [ClickRecord [''audio/webm''] Granted, RecorderError] mount) =
      Inr [1] \<and>
    map_sum id streams
      (run ReviewVariant En [ClickRecord [''audio/webm''] Granted, RecorderError] mount) =
      Inr [True] \<and>
    map_sum id timers
      (run AutoVariant En
         [ClickRecord [''audio/webm''] Granted, RecorderError, RecorderStop,
          Response (Rejected ''offline''), ClickRecord [''audio/webm''] Granted] mount) =
      Inr [1, 2] \<and>
    map_sum id streams
      (run AutoVariant En
         [ClickRecord [''audio/webm''] Granted, RecorderError, RecorderStop,
          Response (Rejected ''offline''), ClickRecord [''audio/webm''] Granted] mount) =
      Inr [False, True])"
  by (rule conjI, simp add: onerror_def, code_simp)

text \<open>
  C4. In either variant, a submission (the blob reference holds a blob) answered with
  status 200 and the body \<open>{ normalized_text: "hello" }\<close> sends the blob, calls
  \<open>onTranscription\<close> once, with \<open>"hello"\<close>, and leaves the session reset: idle, the blob
  reference cleared, the timer value 0. The same holds for the response's handling alone,
  whatever the session is when the response arrives.
\<close>

theorem submit_hello:
  assumes "audioBlobRef s = Some b"
    and "s' = submitRecording v language
                (Replied 200 (Inr (JObj [(''normalized_text'', JStr ''hello'')]))) s"
  shows "transcriptions s' = transcriptions s @ [JStr ''hello''] \<and>
         state s' = Idle \<and> audioBlobRef s' = None \<and> recordingTime s' = 0 \<and>
         audioUrl s' = (case v of ReviewVariant \<Rightarrow> None | AutoVariant \<Rightarrow> audioUrl s) \<and>
         requests s' = requests s @
           [\<lparr>up_audio = b, up_filename = ''recording.webm'', up_language = language\<rparr>] \<and>
         inflight s' = inflight s \<and>
         (\<forall>t url rest. inflight t = url # rest \<longrightarrow>
            transcriptions
              (settle v (Replied 200 (Inr (JObj [(''normalized_text'', JStr ''hello'')]))) t) =
              transcriptions t @ [JStr ''hello''] \<and>
            state (settle v (Replied 200 (Inr (JObj [(''normalized_text'', JStr ''hello'')]))) t) =
              Idle \<and>
            audioBlobRef
              (settle v (Replied 200 (Inr (JObj [(''normalized_text'', JStr ''hello'')]))) t) =
              None \<and>
            recordingTime
              (settle v (Replied 200 (Inr (JObj [(''normalized_text'', JStr ''hello'')]))) t) =
              0)"
  using assms by (cases v) (simp_all add: submit_defs settle_def split: option.splits)

theorem submit_hello_witness:
  "transcriptions
     (submitRecording ReviewVariant En
        (Replied 200 (Inr (JObj [(''normalized_text'', JStr ''hello'')])))
        (mount\<lparr>state := Review,
               audioBlobRef := Some \<lparr>blob_bytes = [1, 2, 3], blob_type = ''audio/webm''\<rparr>\<rparr>)) =
     [JStr ''hello''] \<and>
   state
     (submitRecording ReviewVariant En
        (Replied 200 (Inr (JObj [(''normalized_text'', JStr ''hello'')])))
        (mount\<lparr>state := Review,
               audioBlobRef := Some \<lparr>blob_bytes = [1, 2, 3], blob_type = ''audio/webm''\<rparr>\<rparr>)) =
     Idle"
  using submit_hello
    [of "mount\<lparr>state := Review,
               audioBlobRef := Some \<lparr>blob_bytes = [1, 2, 3], blob_type = ''audio/webm''\<rparr>\<rparr>"
        "\<lparr>blob_bytes = [1, 2, 3], blob_type = ''audio/webm''\<rparr>"
        "submitRecording ReviewVariant En
           (Replied 200 (Inr (JObj [(''normalized_text'', JStr ''hello'')])))
           (mount\<lparr>state := Review,
                  audioBlobRef := Some \<lparr>blob_bytes = [1, 2, 3], blob_type = ''audio/webm''\<rparr>\<rparr>)"
        ReviewVariant En]
  by (simp add: mount_def)

text \<open>
  C5. In either variant, a submission answered with status 500 and the body
  \<open>{ error: "oops" }\<close> shows \<open>"oops"\<close> as the error and does not call \<open>onTranscription\<close>.
  The review variant returns to review with the blob reference unchanged, so the audio
  can be submitted again; the auto variant returns to idle. The same holds for the
  response's handling alone, whatever the session is when the response arrives.
\<close>

theorem submit_oops:
  assumes "audioBlobRef s = Some b"
    and "s' = submitRecording v language
                (Replied 500 (Inr (JObj [(''error'', JStr ''oops'')]))) s"
  shows "error s' = Shown (JStr ''oops'') \<and>
         transcriptions s' = transcriptions s \<and>
         audioBlobRef s' = Some b \<and>
         state s' = (case v of ReviewVariant \<Rightarrow> Review | AutoVariant \<Rightarrow> Idle) \<and>
         requests s' = requests s @
           [\<lparr>up_audio = b, up_filename = ''recording.webm'', up_language = language\<rparr>] \<and>
         (\<forall>t url rest. inflight t = url # rest \<longrightarrow>
            error (settle v (Replied 500 (Inr (JObj [(''error'', JStr ''oops'')]))) t) =
              Shown (JStr ''oops'') \<and>
            transcriptions (settle v (Replied 500 (Inr (JObj [(''error'', JStr ''oops'')]))) t) =
              transcriptions t \<and>
            audioBlobRef (settle v (Replied 500 (Inr (JObj [(''error'', JStr ''oops'')]))) t) =
              audioBlobRef t \<and>
            state (settle v (Replied 500 (Inr (JObj [(''error'', JStr ''oops'')]))) t) =
              (case v of ReviewVariant \<Rightarrow> Review | AutoVariant \<Rightarrow> Idle))"
  using assms by (cases v) (simp_all add: submit_defs settle_def split: option.splits)

theorem submit_oops_witness:
  "error
     (submitRecording ReviewVariant En (Replied 500 (Inr (JObj [(''error'', JStr ''oops'')])))
        (mount\<lparr>state := Review,
               audioBlobRef := Some \<lparr>blob_bytes = [1, 2, 3], blob_type = ''audio/webm''\<rparr>\<rparr>)) =
     Shown (JStr ''oops'') \<and>
   audioBlobRef
     (submitRecording ReviewVariant En (Replied 500 (Inr (JObj [(''error'', JStr ''oops'')])))
        (mount\<lparr>state := Review,
               audioBlobRef := Some \<lparr>blob_bytes = [1, 2, 3], blob_type = ''audio/webm''\<rparr>\<rparr>)) =
     Some \<lparr>blob_bytes = [1, 2, 3], blob_type = ''audio/webm''\<rparr>"
  using submit_oops
    [of "mount\<lparr>state := Review,
               audioBlobRef := Some \<lparr>blob_bytes = [1, 2, 3], blob_type = ''audio/webm''\<rparr>\<rparr>"
        "\<lparr>blob_bytes = [1, 2, 3], blob_type = ''audio/webm''\<rparr>"
        "submitRecording ReviewVariant En (Replied 500 (Inr (JObj [(''error'', JStr ''oops'')])))
           (mount\<lparr>state := Review,
                  audioBlobRef := Some \<lparr>blob_bytes = [1, 2, 3], blob_type = ''audio/webm''\<rparr>\<rparr>)"
        ReviewVariant En]
  by (simp add: mount_def)

text \<open>
  C6, as the handlers have it. Take any session with no request in flight, in either
  variant. Start a recording (microphone granted), request the stop, and let the
  recorder's stop event fire, with no data event of a size above 0 before that event
  (data events of size 0 may fall anywhere). No handler throws and every render succeeds;
  the chunk buffer is empty and the assembled blob has size 0. The submission that follows
  (on the click in the review variant, at once in the auto variant) uploads that empty
  blob, and whatever the reply, the handler of the response returns with the session idle
  or in review. The render after it succeeds, unless the reply made the handler store an
  error that React refuses as a child (an object, or an array holding one): then the
  render throws.
\<close>

theorem stop_without_data:
  assumes "inflight s = []" and "\<forall>d \<in> set (early @ late). blob_size d = 0"
  shows "\<exists>s' b.
           run v language
             ([ClickRecord supported Granted] @ map DataAvailable early @ [ClickStop] @
              map DataAvailable late @ [RecorderStop]) s = Inr s' \<and>
           audioChunksRef s' = [] \<and> audioBlobRef s' = Some b \<and> blob_size b = 0 \<and>
           (\<forall>result. \<exists>t t'.
              run v language
                (([ClickRecord supported Granted] @ map DataAvailable early @ [ClickStop] @
                  map DataAvailable late @ [RecorderStop]) @ [ClickUseThis]) s = Inr t \<and>
              handle v language (Response result) t = Inr t' \<and>
              requests t' = requests s @
                [\<lparr>up_audio = b, up_filename = ''recording.webm'', up_language = language\<rparr>] \<and>
              (state t' = Idle \<or> state t' = Review) \<and>
              run v language
                (([ClickRecord supported Granted] @ map DataAvailable early @ [ClickStop] @
                  map DataAvailable late @ [RecorderStop]) @
                 [ClickUseThis, Response result]) s =
                (if \<exists>st kvs e. result = Replied st (Inr (JObj kvs)) \<and>
                       map_of (rev kvs) ''error'' = Some e \<and> \<not> renderable e \<and>
                       \<not> (ok st \<and> (\<exists>text. map_of (rev kvs) ''normalized_text'' = Some text \<and>
                                       truthy text))
                 then Inl RenderError else Inr t'))"
proof (cases v)
  case ReviewVariant
  let ?pre = "[ClickRecord supported Granted] @ map DataAvailable early @ [ClickStop] @
              map DataAvailable late @ [RecorderStop]"
  from stop_run_review [OF assms(2), of language supported s] obtain s' where s':
    "run ReviewVariant language ?pre s = Inr s'"
    "audioChunksRef s' = []" "state s' = Review" "requests s' = requests s"
    "inflight s' = inflight s" "error s' = Shown (JStr [])"
    "audioBlobRef s' = Some (assemble (pick_mimeType supported mimeTypes) s')"
    by blast
  let ?b = "assemble (pick_mimeType supported mimeTypes) s'"
  let ?t = "s'\<lparr>state := Processing, error := Shown (JStr []),
               requests := requests s @
                 [\<lparr>up_audio = ?b, up_filename = ''recording.webm'', up_language = language\<rparr>],
               inflight := [audioUrl s']\<rparr>"
  have size: "blob_size ?b = 0"
    using s'(2) by (rule assemble_empty)
  have click: "run ReviewVariant language (?pre @ [ClickUseThis]) s = Inr ?t"
    unfolding run_append [of _ _ ?pre] s'(1) using s' assms(1)
    by (simp add: submit_begin_def render_def)
  have later: "\<exists>t'.
      handle ReviewVariant language (Response result) ?t = Inr t' \<and>
      requests t' = requests s @
        [\<lparr>up_audio = ?b, up_filename = ''recording.webm'', up_language = language\<rparr>] \<and>
      (state t' = Idle \<or> state t' = Review) \<and>
      run ReviewVariant language (?pre @ [ClickUseThis, Response result]) s =
        (if \<exists>st kvs e. result = Replied st (Inr (JObj kvs)) \<and>
               map_of (rev kvs) ''error'' = Some e \<and> \<not> renderable e \<and>
               \<not> (ok st \<and> (\<exists>text. map_of (rev kvs) ''normalized_text'' = Some text \<and>
                               truthy text))
         then Inl RenderError else Inr t')" for result
  proof -
    let ?t' = "submit_end_review (audioUrl s') result (?t\<lparr>inflight := []\<rparr>)"
    have h: "handle ReviewVariant language (Response result) ?t = Inr ?t'"
      by (simp add: settle_def)
    have d: "displayable (error (?t\<lparr>inflight := []\<rparr>))" by simp
    have "run ReviewVariant language (?pre @ [ClickUseThis, Response result]) s =
          run ReviewVariant language [ClickUseThis, Response result] s'"
      unfolding run_append [of _ _ ?pre] s'(1) by simp
    also have "\<dots> = (if displayable (error ?t') then Inr ?t' else Inl RenderError)"
      using s' assms(1) by (simp add: submit_begin_def settle_def render_def)
    finally have r: "run ReviewVariant language (?pre @ [ClickUseThis, Response result]) s =
          (if displayable (error ?t') then Inr ?t' else Inl RenderError)" .
    show ?thesis
      using h r submit_end_review_state [of "audioUrl s'" result "?t\<lparr>inflight := []\<rparr>"]
      unfolding submit_end_review_displayable [OF d]
      by (auto simp: submit_end_review_requests)
  qed
  from click later have "\<forall>result. \<exists>t t'.
      run ReviewVariant language (?pre @ [ClickUseThis]) s = Inr t \<and>
      handle ReviewVariant language (Response result) t = Inr t' \<and>
      requests t' = requests s @
        [\<lparr>up_audio = ?b, up_filename = ''recording.webm'', up_language = language\<rparr>] \<and>
      (state t' = Idle \<or> state t' = Review) \<and>
      run ReviewVariant language (?pre @ [ClickUseThis, Response result]) s =
        (if \<exists>st kvs e. result = Replied st (Inr (JObj kvs)) \<and>
               map_of (rev kvs) ''error'' = Some e \<and> \<not> renderable e \<and>
               \<not> (ok st \<and> (\<exists>text. map_of (rev kvs) ''normalized_text'' = Some text \<and>
                               truthy text))
         then Inl RenderError else Inr t')"
    by blast
  with s'(1,2,7) size show ?thesis
    unfolding ReviewVariant by blast
next
  case AutoVariant
  let ?pre = "[ClickRecord supported Granted] @ map DataAvailable early @ [ClickStop] @
              map DataAvailable late @ [RecorderStop]"
  from stop_run_auto [OF assms(2), of language supported s] obtain s' where s':
    "run AutoVariant language ?pre s = Inr s'"
    "audioChunksRef s' = []" "state s' = Processing"
    "requests s' = requests s @
       [\<lparr>up_audio = assemble (pick_mimeType supported mimeTypes) s',
         up_filename = ''recording.webm'', up_language = language\<rparr>]"
    "inflight s' = inflight s @ [audioUrl s]" "error s' = Shown (JStr [])"
    "audioBlobRef s' = Some (assemble (pick_mimeType supported mimeTypes) s')"
    by blast
  let ?b = "assemble (pick_mimeType supported mimeTypes) s'"
  have size: "blob_size ?b = 0"
    using s'(2) by (rule assemble_empty)
  have click: "run AutoVariant language (?pre @ [ClickUseThis]) s = Inr s'"
    unfolding run_append [of _ _ ?pre] s'(1) using s' by (simp add: render_def)
  have later: "\<exists>t'.
      handle AutoVariant language (Response result) s' = Inr t' \<and>
      requests t' = requests s @
        [\<lparr>up_audio = ?b, up_filename = ''recording.webm'', up_language = language\<rparr>] \<and>
      (state t' = Idle \<or> state t' = Review) \<and>
      run AutoVariant language (?pre @ [ClickUseThis, Response result]) s =
        (if \<exists>st kvs e. result = Replied st (Inr (JObj kvs)) \<and>
               map_of (rev kvs) ''error'' = Some e \<and> \<not> renderable e \<and>
               \<not> (ok st \<and> (\<exists>text. map_of (rev kvs) ''normalized_text'' = Some text \<and>
                               truthy text))
         then Inl RenderError else Inr t')" for result
  proof -
    let ?t' = "submit_end_auto result (s'\<lparr>inflight := []\<rparr>)"
    have h: "handle AutoVariant language (Response result) s' = Inr ?t'"
      using s' assms(1) by (simp add: settle_def)
    have d: "displayable (error (s'\<lparr>inflight := []\<rparr>))" using s' by simp
    have "run AutoVariant language (?pre @ [ClickUseThis, Response result]) s =
          run AutoVariant language [ClickUseThis, Response result] s'"
      unfolding run_append [of _ _ ?pre] s'(1) by simp
    also have "\<dots> = (if displayable (error ?t') then Inr ?t' else Inl RenderError)"
      using s' assms(1) by (simp add: settle_def render_def)
    finally have r: "run AutoVariant language (?pre @ [ClickUseThis, Response result]) s =
          (if displayable (error ?t') then Inr ?t' else Inl RenderError)" .
    show ?thesis
      using h r s'(4) unfolding submit_end_auto_displayable [OF d]
      by (auto simp: submit_end_auto_requests submit_end_auto_state)
  qed
  from click later have "\<forall>result. \<exists>t t'.
      run AutoVariant language (?pre @ [ClickUseThis]) s = Inr t \<and>
      handle AutoVariant language (Response result) t = Inr t' \<and>
      requests t' = requests s @
        [\<lparr>up_audio = ?b, up_filename = ''recording.webm'', up_language = language\<rparr>] \<and>
      (state t' = Idle \<or> state t' = Review) \<and>
      run AutoVariant language (?pre @ [ClickUseThis, Response result]) s =
        (if \<exists>st kvs e. result = Replied st (Inr (JObj kvs)) \<and>
               map_of (rev kvs) ''error'' = Some e \<and> \<not> renderable e \<and>
               \<not> (ok st \<and> (\<exists>text. map_of (rev kvs) ''normalized_text'' = Some text \<and>
                               truthy text))
         then Inl RenderError else Inr t')"
    by blast
  with s'(1,2,7) size show ?thesis
    unfolding AutoVariant by blast
qed

theorem stop_without_data_witness:
  "inflight mount = [] \<and>
   blob_size \<lparr>blob_bytes = [], blob_type = ''audio/webm''\<rparr> = 0 \<and>
   map_sum id audioBlobRef
     (run ReviewVariant En
        [ClickRecord [''audio/webm''] Granted,
         DataAvailable \<lparr>blob_bytes = [], blob_type = ''audio/webm''\<rparr>,
         ClickStop,
         DataAvailable \<lparr>blob_bytes = [], blob_type = ''audio/webm''\<rparr>,
         RecorderStop] mount) =
     Inr (Some \<lparr>blob_bytes = [], blob_type = ''audio/webm''\<rparr>)"
  using stop_without_data
    [of mount "[\<lparr>blob_bytes = [], blob_type = ''audio/webm''\<rparr>]"
        "[\<lparr>blob_bytes = [], blob_type = ''audio/webm''\<rparr>]" ReviewVariant En
        "[''audio/webm'']"]
  by (simp add: mount_def blob_size_def startRecording_Granted render_def ondataavailable_def
      stopRecording_def clearInterval_def rec_stop_def onstop_review_def stop_tracks_def
      assemble_def new_Blob_def mimeTypes_def isTypeSupported_def Let_def)

text \<open>
  C6 as the specification words it fails twice. The stop is requested before any data
  event, the recorder then delivers its last chunk of 3 bytes before its stop event: the
  buffer holds the chunk and the blob has 3 bytes. And after a stop with no data at all in
  the auto variant, a reply of status 500 whose \<open>error\<close> is an object makes the render
  throw.
\<close>

theorem stop_then_data_counterexample:
  "map_sum id audioChunksRef
     (run ReviewVariant En
        [ClickRecord [''audio/webm''] Granted, ClickStop,
         DataAvailable \<lparr>blob_bytes = [1, 2, 3], blob_type = ''audio/webm''\<rparr>,
         RecorderStop] mount) =
     Inr [\<lparr>blob_bytes = [1, 2, 3], blob_type = ''audio/webm''\<rparr>] \<and>
   map_sum id audioBlobRef
     (run ReviewVariant En
        [ClickRecord [''audio/webm''] Granted, ClickStop,
         DataAvailable \<lparr>blob_bytes = [1, 2, 3], blob_type = ''audio/webm''\<rparr>,
         RecorderStop] mount) =
     Inr (Some \<lparr>blob_bytes = [1, 2, 3], blob_type = ''audio/webm''\<rparr>) \<and>
   run AutoVariant En
     [ClickRecord [''audio/webm''] Granted, ClickStop, RecorderStop,
      Response (Replied 500 (Inr (JObj [(''error'', JObj [(''code'', JNum 5)])])))] mount =
     Inl RenderError"
  by code_simp

text \<open>
  C9. In either variant, while the blob reference is null \<open>submitRecording\<close> does nothing:
  the session after the call is the session before it, so no upload is sent, no call is
  left in flight, the callback is not called, and state, error and timer value are
  unchanged.
\<close>

theorem submitRecording_without_blob:
  assumes "audioBlobRef s = None"
  shows "submitRecording v language result s = s \<and> submit_begin language s = s \<and>
         handle ReviewVariant language ClickUseThis s = Inr s"
  using assms by (simp add: submitRecording_def submit_begin_def)

theorem submitRecording_without_blob_witness:
  "audioBlobRef mount = None \<and>
   submitRecording AutoVariant Hi
     (Replied 200 (Inr (JObj [(''normalized_text'', JStr ''hello'')]))) mount = mount"
  using submitRecording_without_blob [of mount AutoVariant Hi
      "Replied 200 (Inr (JObj [(''normalized_text'', JStr ''hello'')]))"]
  by (simp add: mount_def)

section \<open>Properties of the proxies\<close>

subsection \<open>Facts about parsing and serialising\<close>

lemmas json_eval =
  to_double_def bitlen.simps array_index_def own_members_def enumerable_def Let_def

lemma bitlen_le: "bitlen m \<le> k \<longleftrightarrow> m < 2 ^ k"
proof (induction m arbitrary: k rule: bitlen.induct)
  case (1 n)
  show ?case
  proof (cases "n = 0")
    case True
    then show ?thesis by (simp add: bitlen.simps)
  next
    case False
    show ?thesis
    proof (cases k)
      case 0
      with False show ?thesis by (simp add: bitlen.simps)
    next
      case (Suc j)
      have "bitlen n \<le> Suc j \<longleftrightarrow> bitlen (n div 2) \<le> j"
        using False by (subst bitlen.simps) simp
      also have "\<dots> \<longleftrightarrow> n div 2 < 2 ^ j"
        using 1 [OF False] by simp
      also have "\<dots> \<longleftrightarrow> n < 2 ^ Suc j"
        by (simp add: div_less_iff_less_mult mult.commute)
      finally show ?thesis using Suc by simp
    qed
  qed
qed

lemma to_double_small:
  assumes "\<bar>n\<bar> < 2 ^ 53"
  shows "to_double n = n"
proof -
  from assms have "nat \<bar>n\<bar> < 2 ^ 53" by (simp add: nat_less_iff)
  then have "bitlen (nat \<bar>n\<bar>) \<le> 53" by (simp add: bitlen_le)
  then show ?thesis by (simp add: to_double_def Let_def)
qed

lemma set_member_new: "k \<notin> fst ` set ms \<Longrightarrow> set_member k v ms = ms @ [(k, v)]"
  by (induction ms) auto

lemma set_member_names: "fst ` set (set_member k v ms) = insert k (fst ` set ms)"
  by (induction ms) force+

lemma set_member_distinct: "distinct (map fst ms) \<Longrightarrow> distinct (map fst (set_member k v ms))"
  by (induction ms) (auto simp: set_member_names)

lemma map_of_set_member: "map_of (set_member k v ms) = (map_of ms)(k \<mapsto> v)"
  by (induction ms) auto

lemma foldl_set_member_fresh:
  "distinct (map fst kvs) \<Longrightarrow> fst ` set acc \<inter> fst ` set kvs = {} \<Longrightarrow>
   foldl (\<lambda>ms (k, v). set_member k v ms) acc kvs = acc @ kvs"
proof (induction kvs arbitrary: acc)
  case Nil
  then show ?case by simp
next
  case (Cons kv kvs)
  obtain k v where kv: "kv = (k, v)" by (cases kv)
  from Cons.prems kv have new: "k \<notin> fst ` set acc" by auto
  have "foldl (\<lambda>ms (k, v). set_member k v ms) (acc @ [(k, v)]) kvs = (acc @ [(k, v)]) @ kvs"
    using Cons.prems kv by (intro Cons.IH) auto
  then show ?case using new kv by (simp add: set_member_new)
qed

lemma own_members_fresh: "distinct (map fst kvs) \<Longrightarrow> own_members kvs = kvs"
  unfolding own_members_def using foldl_set_member_fresh [of kvs "[]"] by simp

lemma foldl_set_member_lookup:
  "distinct (map fst acc) \<Longrightarrow>
   distinct (map fst (foldl (\<lambda>ms (k, v). set_member k v ms) acc kvs)) \<and>
   map_of (foldl (\<lambda>ms (k, v). set_member k v ms) acc kvs) = map_of acc ++ map_of (rev kvs)"
proof (induction kvs arbitrary: acc)
  case Nil
  then show ?case by simp
next
  case (Cons kv kvs)
  obtain k v where kv: "kv = (k, v)" by (cases kv)
  have "distinct (map fst (set_member k v acc))"
    using Cons.prems by (rule set_member_distinct)
  from Cons.IH [OF this] show ?case
    unfolding kv by (simp add: map_of_set_member map_add_def fun_eq_iff split: option.splits)
qed

lemma map_of_rev_distinct: "distinct (map fst xs) \<Longrightarrow> map_of (rev xs) k = map_of xs k"
proof (induction xs)
  case Nil
  then show ?case by simp
next
  case (Cons x xs)
  then have ih: "map_of (rev xs) k = map_of xs k" by simp
  show ?case
  proof (cases "k = fst x")
    case True
    from Cons.prems have "fst x \<notin> fst ` set (rev xs)" by simp
    then have "map_of (rev xs) (fst x) = None" by (simp add: map_of_eq_None_iff)
    with True show ?thesis by (cases x) (simp add: map_add_def)
  next
    case False
    with ih show ?thesis by (cases x) (simp add: map_add_def split: option.splits)
  qed
qed

text \<open>Reading a member of a parsed object: the last member of that name, parsed.\<close>

lemma get_prop_parsed:
  "get_prop (JSON_parse (JObj kvs)) k = Inr (map_option JSON_parse (map_of (rev kvs) k))"
proof -
  let ?ms = "map (\<lambda>(k, v). (k, JSON_parse v)) kvs"
  have l: "distinct (map fst (own_members ?ms)) \<and> map_of (own_members ?ms) = map_of (rev ?ms)"
    unfolding own_members_def using foldl_set_member_lookup [of "[]" ?ms] by simp
  then have "map_of (rev (own_members ?ms)) k = map_of (rev ?ms) k"
    by (simp add: map_of_rev_distinct)
  also have "rev ?ms = map (\<lambda>(k, v). (k, JSON_parse v)) (rev kvs)"
    by (simp add: rev_map)
  also have "map_of \<dots> k = map_option JSON_parse (map_of (rev kvs) k)"
    by (simp add: map_of_map)
  finally show ?thesis by simp
qed

lemma enumerable_plain:
  assumes "list_all (\<lambda>(k, v). array_index k = None) ms"
  shows "enumerable ms = ms"
proof -
  from assms have "filter (\<lambda>(k, v). array_index k \<noteq> None) ms = []"
    by (induction ms) auto
  moreover from assms have "filter (\<lambda>(k, v). array_index k = None) ms = ms"
    by (induction ms) auto
  ultimately show ?thesis by (simp add: enumerable_def)
qed

text \<open>Parsing and serialising leave a plain document as it is.\<close>

lemma roundtrip_plain: "plain doc \<Longrightarrow> JSON_stringify (JSON_parse doc) = doc"
proof (induction doc)
  case (JNum n)
  then show ?case by (simp add: to_double_small)
next
  case (JArr xs)
  then show ?case by (simp add: list_all_iff map_idI)
next
  case (JObj kvs)
  from JObj.prems have d: "distinct (map fst (map (\<lambda>(k, v). (k, JSON_parse v)) kvs))"
    by (simp add: case_prod_beta comp_def)
  have step: "map (\<lambda>(k, v). (k, JSON_stringify v)) (map (\<lambda>(k, v). (k, JSON_parse v)) kvs) = kvs"
    using JObj by (auto simp: list_all_iff case_prod_beta intro!: map_idI prod_eqI)
  from JObj.prems have "list_all (\<lambda>(k, v). array_index k = None) kvs"
    by (auto simp: list_all_iff)
  then show ?case
    using d step by (simp add: own_members_fresh enumerable_plain)
qed simp_all

lemma parse_plain: "plain doc \<Longrightarrow> JSON_parse doc = doc"
proof (induction doc)
  case (JNum n)
  then show ?case by (simp add: to_double_small)
next
  case (JArr xs)
  then show ?case by (simp add: list_all_iff map_idI)
next
  case (JObj kvs)
  have "map (\<lambda>(k, v). (k, JSON_parse v)) kvs = kvs"
    using JObj by (auto simp: list_all_iff case_prod_beta intro!: map_idI prod_eqI)
  with JObj.prems show ?case by (simp add: own_members_fresh)
qed simp_all

lemma error_member_enumerable [simp]: "enumerable [(''error'', v)] = [(''error'', v)]"
  by (simp add: enumerable_def array_index_def)

subsection \<open>The claims\<close>

text \<open>
  C7, as the handler has it. The publish proxy sends one call to the backend. The call
  carries the incoming \<open>Authorization\<close> header when the incoming request has one with a
  non-empty value, and carries none when the incoming request has none. When the backend's
  body parses as JSON and its status is in 200 to 599 and is not 204, 205 or 304, the
  client gets that status and the parsed body serialised again, which is the backend's
  document itself when that is plain (numbers of at most 53 binary digits, no repeated
  member name, no array index as a member name). When the status is any other, the fetch
  fails or the body does not parse, the client gets status 500 and
  \<open>{ error: 'Failed to publish website', detail }\<close>.
\<close>

theorem publish_POST_forwarding:
  "\<exists>call. snd (publish_POST env thrown backend request) = [call] \<and>
     (pr_authorization request = None \<longrightarrow> map_of (pc_headers call) ''Authorization'' = None) \<and>
     (\<forall>a. pr_authorization request = Some a \<and> a \<noteq> [] \<longrightarrow>
        map_of (pc_headers call) ''Authorization'' = Some a) \<and>
     (\<forall>st body. backend = Replied st (Inr body) \<longrightarrow>
        fst (publish_POST env thrown backend request) =
          (if 200 \<le> st \<and> st \<le> 599 \<and> st \<noteq> 204 \<and> st \<noteq> 205 \<and> st \<noteq> 304
           then \<lparr>resp_status = st, resp_body = JSON_stringify (JSON_parse body)\<rparr>
           else \<lparr>resp_status = 500,
                 resp_body = JObj [(''error'', JStr ''Failed to publish website''),
                                   (''detail'', JStr thrown)]\<rparr>)) \<and>
     (\<forall>st body. backend = Replied st (Inr body) \<and> plain body \<and>
        200 \<le> st \<and> st \<le> 599 \<and> st \<noteq> 204 \<and> st \<noteq> 205 \<and> st \<noteq> 304 \<longrightarrow>
        fst (publish_POST env thrown backend request) = \<lparr>resp_status = st, resp_body = body\<rparr>) \<and>
     (\<forall>e. backend = Rejected e \<or> (\<exists>st. backend = Replied st (Inl e)) \<longrightarrow>
        fst (publish_POST env thrown backend request) =
          \<lparr>resp_status = 500,
           resp_body = JObj [(''error'', JStr ''Failed to publish website''),
                             (''detail'', JStr e)]\<rparr>)"
  by (auto simp: publish_POST_def publish_failed_def NextResponse_json_def Let_def
      roundtrip_plain split: reply.splits sum.splits option.splits)

theorem publish_POST_forwarding_witness:
  "snd (publish_POST None ''RangeError'' (Replied 201 (Inr (JObj [(''url'', JStr ''x'')])))
          \<lparr>pr_id = ''7'', pr_authorization = Some ''Bearer t''\<rparr>) =
     [\<lparr>pc_url = ''http://localhost:8000/api/publish/7'', pc_method = ''POST'',
       pc_headers = [(''Content-Type'', ''application/json''), (''Authorization'', ''Bearer t'')]\<rparr>] \<and>
   plain (JObj [(''url'', JStr ''x'')]) \<and>
   fst (publish_POST None ''RangeError'' (Replied 201 (Inr (JObj [(''url'', JStr ''x'')])))
          \<lparr>pr_id = ''7'', pr_authorization = Some ''Bearer t''\<rparr>) =
     \<lparr>resp_status = 201, resp_body = JObj [(''url'', JStr ''x'')]\<rparr>"
  using publish_POST_forwarding [of None "''RangeError''"
      "Replied 201 (Inr (JObj [(''url'', JStr ''x'')]))"
      "\<lparr>pr_id = ''7'', pr_authorization = Some ''Bearer t''\<rparr>"]
  by (simp add: publish_POST_def BACKEND_URL_def NextResponse_json_def json_eval)

text \<open>
  C7 as the specification words it fails three times. A backend answer of status 502
  whose body is not JSON reaches the client as status 500 with another body. A backend
  answer of status 600 with a JSON body reaches the client as status 500. A backend body
  that repeats a member name and holds an integer of 54 binary digits reaches the client
  with the name once and the integer rounded.
\<close>

theorem publish_POST_claim_counterexample:
  "fst (publish_POST None ''RangeError'' (Replied 502 (Inl ''SyntaxError: Unexpected token <''))
          \<lparr>pr_id = ''7'', pr_authorization = None\<rparr>) =
     \<lparr>resp_status = 500,
      resp_body = JObj [(''error'', JStr ''Failed to publish website''),
                        (''detail'', JStr ''SyntaxError: Unexpected token <'')]\<rparr> \<and>
   fst (publish_POST None ''RangeError'' (Replied 600 (Inr (JObj [(''url'', JStr ''x'')])))
          \<lparr>pr_id = ''7'', pr_authorization = None\<rparr>) =
     \<lparr>resp_status = 500,
      resp_body = JObj [(''error'', JStr ''Failed to publish website''),
                        (''detail'', JStr ''RangeError'')]\<rparr> \<and>
   fst (publish_POST None ''RangeError''
          (Replied 200
             (Inr (JObj [(''url'', JStr ''x''), (''id'', JNum 9007199254740993),
                         (''url'', JStr ''y'')])))
          \<lparr>pr_id = ''7'', pr_authorization = None\<rparr>) =
     \<lparr>resp_status = 200,
      resp_body = JObj [(''url'', JStr ''y''), (''id'', JNum 9007199254740992)]\<rparr>"
  by (simp add: publish_POST_def BACKEND_URL_def publish_failed_def NextResponse_json_def
      json_eval)

text \<open>
  C8, as the handler has it. Take a request with an audio part and a backend answer whose
  status is not 2xx. When the status is in 300 to 599 and is not 304, and the body parses
  as JSON and is not \<open>null\<close>, the client gets the same status and \<open>{ error: d }\<close>, where
  \<open>d\<close> is the parsed body's \<open>detail\<close> when that is truthy and \<open>'Transcription failed'\<close>
  otherwise. When the status is any other, or the body is \<open>null\<close> or does not parse, the
  client gets status 500 and \<open>{ error: 'Failed to process voice recording' }\<close>. An \<open>error\<close>
  member of the backend's body never changes the answer. For a body that is an object
  whose \<open>detail\<close> is a plain document, \<open>d\<close> is that very document when it is truthy.
\<close>

theorem voice_POST_backend_error:
  assumes "form_get formData ''audio'' = Some a" and "form_truthy a" and "\<not> ok st"
  shows "fst (voice_POST env (Replied st (Inr body)) (Some formData)) =
           (if body = JNull \<or> st < 200 \<or> 599 < st \<or> st = 304 then
              \<lparr>resp_status = 500,
               resp_body = JObj [(''error'', JStr ''Failed to process voice recording'')]\<rparr>
            else
              \<lparr>resp_status = st,
               resp_body = JObj [(''error'',
                 JSON_stringify
                   (case get_prop (JSON_parse body) ''detail'' of
                      Inr (Some d) \<Rightarrow> if truthy d then d else JStr ''Transcription failed''
                    | _ \<Rightarrow> JStr ''Transcription failed''))]\<rparr>) \<and>
         fst (voice_POST env (Replied st (Inl e)) (Some formData)) =
           \<lparr>resp_status = 500,
            resp_body = JObj [(''error'', JStr ''Failed to process voice recording'')]\<rparr> \<and>
         fst (voice_POST env (Replied st (Inr (JObj (kvs1 @ (''error'', x) # kvs2)))) (Some formData)) =
         fst (voice_POST env (Replied st (Inr (JObj (kvs1 @ kvs2)))) (Some formData)) \<and>
         (\<forall>kvs. body = JObj kvs \<and> 200 \<le> st \<and> st \<le> 599 \<and> st \<noteq> 304 \<and>
                (\<forall>d. map_of (rev kvs) ''detail'' = Some d \<longrightarrow> plain d) \<longrightarrow>
            fst (voice_POST env (Replied st (Inr body)) (Some formData)) =
              \<lparr>resp_status = st,
               resp_body = JObj [(''error'',
                 (case map_of (rev kvs) ''detail'' of
                    Some d \<Rightarrow> if truthy d then d else JStr ''Transcription failed''
                  | None \<Rightarrow> JStr ''Transcription failed''))]\<rparr>)"
proof (intro conjI)
  have not_null: "JSON_parse body = JNull \<longleftrightarrow> body = JNull"
    by (cases body) simp_all
  have null_throws: "(\<exists>x. get_prop (JSON_parse body) ''detail'' = Inl x) \<longleftrightarrow> body = JNull"
    by (cases body) simp_all
  show main: "fst (voice_POST env (Replied st (Inr body)) (Some formData)) =
           (if body = JNull \<or> st < 200 \<or> 599 < st \<or> st = 304 then
              \<lparr>resp_status = 500,
               resp_body = JObj [(''error'', JStr ''Failed to process voice recording'')]\<rparr>
            else
              \<lparr>resp_status = st,
               resp_body = JObj [(''error'',
                 JSON_stringify
                   (case get_prop (JSON_parse body) ''detail'' of
                      Inr (Some d) \<Rightarrow> if truthy d then d else JStr ''Transcription failed''
                    | _ \<Rightarrow> JStr ''Transcription failed''))]\<rparr>)"
  proof (cases "get_prop (JSON_parse body) ''detail''")
    case (Inl x)
    with null_throws have "body = JNull" by blast
    with assms show ?thesis
      by (simp add: voice_POST_def voice_failed_def)
  next
    case (Inr d)
    with null_throws have "body \<noteq> JNull" by auto
    with assms Inr show ?thesis
      by (cases d)
        (auto simp: voice_POST_def voice_failed_def NextResponse_json_def ok_def)
  qed
  show "fst (voice_POST env (Replied st (Inl e)) (Some formData)) =
           \<lparr>resp_status = 500,
            resp_body = JObj [(''error'', JStr ''Failed to process voice recording'')]\<rparr>"
    using assms by (simp add: voice_POST_def voice_failed_def)
  have "map_of (rev (kvs1 @ (''error'', x) # kvs2)) ''detail'' =
        map_of (rev (kvs1 @ kvs2)) ''detail''"
    by (simp add: map_add_def split: option.splits)
  then have "get_prop (JSON_parse (JObj (kvs1 @ (''error'', x) # kvs2))) ''detail'' =
             get_prop (JSON_parse (JObj (kvs1 @ kvs2))) ''detail''"
    unfolding get_prop_parsed by simp
  then show "fst (voice_POST env (Replied st (Inr (JObj (kvs1 @ (''error'', x) # kvs2))))
                 (Some formData)) =
             fst (voice_POST env (Replied st (Inr (JObj (kvs1 @ kvs2)))) (Some formData))"
    using assms by (simp add: voice_POST_def del: JSON_parse.simps)
  show "\<forall>kvs. body = JObj kvs \<and> 200 \<le> st \<and> st \<le> 599 \<and> st \<noteq> 304 \<and>
                (\<forall>d. map_of (rev kvs) ''detail'' = Some d \<longrightarrow> plain d) \<longrightarrow>
            fst (voice_POST env (Replied st (Inr body)) (Some formData)) =
              \<lparr>resp_status = st,
               resp_body = JObj [(''error'',
                 (case map_of (rev kvs) ''detail'' of
                    Some d \<Rightarrow> if truthy d then d else JStr ''Transcription failed''
                  | None \<Rightarrow> JStr ''Transcription failed''))]\<rparr>"
  proof (intro allI impI)
    fix kvs
    assume h: "body = JObj kvs \<and> 200 \<le> st \<and> st \<le> 599 \<and> st \<noteq> 304 \<and>
                (\<forall>d. map_of (rev kvs) ''detail'' = Some d \<longrightarrow> plain d)"
    show "fst (voice_POST env (Replied st (Inr body)) (Some formData)) =
              \<lparr>resp_status = st,
               resp_body = JObj [(''error'',
                 (case map_of (rev kvs) ''detail'' of
                    Some d \<Rightarrow> if truthy d then d else JStr ''Transcription failed''
                  | None \<Rightarrow> JStr ''Transcription failed''))]\<rparr>"
    proof (cases "map_of (rev kvs) ''detail''")
      case None
      with h show ?thesis
        unfolding main by (simp add: get_prop_parsed del: JSON_parse.simps)
    next
      case (Some d)
      with h have "plain d" by blast
      then have "JSON_parse d = d" "JSON_stringify d = d"
        using parse_plain roundtrip_plain by force+
      with h Some show ?thesis
        unfolding main by (simp add: get_prop_parsed del: JSON_parse.simps)
    qed
  qed
qed

theorem voice_POST_backend_error_witness:
  "form_get [(''audio'', FFile \<lparr>blob_bytes = [1, 2], blob_type = ''audio/webm''\<rparr> ''recording.webm'')]
      ''audio'' = Some (FFile \<lparr>blob_bytes = [1, 2], blob_type = ''audio/webm''\<rparr> ''recording.webm'') \<and>
   \<not> ok 422 \<and>
   fst (voice_POST None
          (Replied 422 (Inr (JObj [(''detail'', JStr ''bad audio''), (''error'', JStr ''hidden'')])))
          (Some [(''audio'', FFile \<lparr>blob_bytes = [1, 2], blob_type = ''audio/webm''\<rparr> ''recording.webm'')])) =
     \<lparr>resp_status = 422, resp_body = JObj [(''error'', JStr ''bad audio'')]\<rparr>"
  using voice_POST_backend_error
    [of "[(''audio'', FFile \<lparr>blob_bytes = [1, 2], blob_type = ''audio/webm''\<rparr> ''recording.webm'')]"
        "FFile \<lparr>blob_bytes = [1, 2], blob_type = ''audio/webm''\<rparr> ''recording.webm''" 422 None
        "JObj [(''detail'', JStr ''bad audio''), (''error'', JStr ''hidden'')]"]
  by (simp add: form_get_def ok_def own_members_def)

text \<open>
  C8 as the specification words it fails twice: on a backend answer of status 502 whose
  body is not JSON, and on one of status 600 with a JSON body. Either way the client gets
  status 500 and another message than \<open>'Transcription failed'\<close>.
\<close>

theorem voice_POST_claim_counterexample:
  "fst (voice_POST None (Replied 502 (Inl ''SyntaxError: Unexpected token <''))
          (Some [(''audio'', FFile \<lparr>blob_bytes = [1, 2], blob_type = ''audio/webm''\<rparr> ''recording.webm'')])) =
     \<lparr>resp_status = 500, resp_body = JObj [(''error'', JStr ''Failed to process voice recording'')]\<rparr> \<and>
   \<not> ok 502 \<and>
   fst (voice_POST None (Replied 600 (Inr (JObj [(''detail'', JStr ''bad audio'')])))
          (Some [(''audio'', FFile \<lparr>blob_bytes = [1, 2], blob_type = ''audio/webm''\<rparr> ''recording.webm'')])) =
     \<lparr>resp_status = 500, resp_body = JObj [(''error'', JStr ''Failed to process voice recording'')]\<rparr> \<and>
   \<not> ok 600"
  by (simp add: voice_POST_def form_get_def voice_failed_def ok_def NextResponse_json_def
      own_members_def)

text \<open>
  C10. A request to the voice proxy whose form data has no \<open>audio\<close> field is answered with
  status 400 and the body \<open>{ error: 'No audio file provided' }\<close>, and nothing is sent to
  the backend.
\<close>

theorem voice_POST_no_audio:
  assumes "''audio'' \<notin> fst ` set formData"
  shows "voice_POST env backend (Some formData) =
           (\<lparr>resp_status = 400, resp_body = JObj [(''error'', JStr ''No audio file provided'')]\<rparr>, [])"
proof -
  from assms have "map_of formData ''audio'' = None"
    by (simp add: map_of_eq_None_iff)
  then show ?thesis
    by (simp add: voice_POST_def form_get_def no_audio_def)
qed

theorem voice_POST_no_audio_witness:
  "''audio'' \<notin> fst ` set [(''language'', FText ''hi'')] \<and>
   voice_POST None (Replied 200 (Inr (JObj [(''normalized_text'', JStr ''hello'')])))
       (Some [(''language'', FText ''hi'')]) =
     (\<lparr>resp_status = 400, resp_body = JObj [(''error'', JStr ''No audio file provided'')]\<rparr>, [])"
  using voice_POST_no_audio [of "[(''language'', FText ''hi'')]" None
      "Replied 200 (Inr (JObj [(''normalized_text'', JStr ''hello'')]))"]
  by simp

end
